theory Spec2Isabelle
  imports Main "HOL-Library.Sublist"
begin

section \<open>Python strings\<close>

text \<open>
  A Python \<^verbatim>\<open>str\<close> is a sequence of Unicode code points. The program's literals are
  Chinese, so a string is a list of code points (natural numbers), not a list of
  8-bit characters. \<open>ascii\<close> reads an ASCII literal as such a list.
\<close>

type_synonym codepoint = nat
type_synonym str = "codepoint list"

definition ascii :: "string \<Rightarrow> str" where
  "ascii cs = map of_char cs"

subsection \<open>\<^verbatim>\<open>str.strip()\<close>\<close>

text \<open>
  \<^verbatim>\<open>str.strip()\<close> without argument removes the code points for which
  \<^verbatim>\<open>str.isspace()\<close> holds from both ends: U+0009..U+000D, U+001C..U+0020, U+0085,
  U+00A0, U+1680, U+2000..U+200A, U+2028, U+2029, U+202F, U+205F, U+3000.
\<close>

definition isspace :: "codepoint \<Rightarrow> bool" where
  "isspace c \<longleftrightarrow>
     (9 \<le> c \<and> c \<le> 13) \<or> (28 \<le> c \<and> c \<le> 32) \<or> c = 133 \<or> c = 160 \<or>
     c = 5760 \<or> (8192 \<le> c \<and> c \<le> 8202) \<or> c = 8232 \<or> c = 8233 \<or> c = 8239 \<or>
     c = 8287 \<or> c = 12288"

definition strip :: "str \<Rightarrow> str" where
  "strip s = rev (dropWhile isspace (rev (dropWhile isspace s)))"

subsection \<open>\<^verbatim>\<open>str.lower()\<close>\<close>

text \<open>
  \<^verbatim>\<open>str.lower()\<close> replaces every code point by its full lowercase mapping, one
  to three code points long. The mapping is the one of the Unicode character database
  (version 14.0, as in CPython 3.11), stored as runs \<open>(lo, hi, step, target)\<close>: the code
  points \<open>lo\<close>, \<open>lo + step\<close>, ... up to \<open>hi\<close> map to \<open>target\<close>, \<open>target + step\<close>, ...
  The runs are in ascending order, in blocks of twelve. The only code point with a
  longer mapping is U+0130, which becomes U+0069 U+0307.
\<close>

definition lower_runs_1 :: "(nat \<times> nat \<times> nat \<times> nat) list" where
  "lower_runs_1 =
     [(65, 90, 1, 97), (192, 214, 1, 224), (216, 222, 1, 248), (256, 302, 2, 257),
      (306, 310, 2, 307), (313, 327, 2, 314), (330, 374, 2, 331), (376, 376, 1, 255),
      (377, 381, 2, 378), (385, 385, 1, 595), (386, 388, 2, 387), (390, 390, 1, 596)]"

definition lower_runs_2 :: "(nat \<times> nat \<times> nat \<times> nat) list" where
  "lower_runs_2 =
     [(391, 391, 1, 392), (393, 394, 1, 598), (395, 395, 1, 396), (398, 398, 1, 477),
      (399, 399, 1, 601), (400, 400, 1, 603), (401, 401, 1, 402), (403, 403, 1, 608),
      (404, 404, 1, 611), (406, 406, 1, 617), (407, 407, 1, 616), (408, 408, 1, 409)]"

definition lower_runs_3 :: "(nat \<times> nat \<times> nat \<times> nat) list" where
  "lower_runs_3 =
     [(412, 412, 1, 623), (413, 413, 1, 626), (415, 415, 1, 629), (416, 420, 2, 417),
      (422, 422, 1, 640), (423, 423, 1, 424), (425, 425, 1, 643), (428, 428, 1, 429),
      (430, 430, 1, 648), (431, 431, 1, 432), (433, 434, 1, 650), (435, 437, 2, 436)]"

definition lower_runs_4 :: "(nat \<times> nat \<times> nat \<times> nat) list" where
  "lower_runs_4 =
     [(439, 439, 1, 658), (440, 440, 1, 441), (444, 444, 1, 445), (452, 452, 1, 454),
      (453, 453, 1, 454), (455, 455, 1, 457), (456, 456, 1, 457), (458, 458, 1, 460),
      (459, 475, 2, 460), (478, 494, 2, 479), (497, 497, 1, 499), (498, 500, 2, 499)]"

definition lower_runs_5 :: "(nat \<times> nat \<times> nat \<times> nat) list" where
  "lower_runs_5 =
     [(502, 502, 1, 405), (503, 503, 1, 447), (504, 542, 2, 505), (544, 544, 1, 414),
      (546, 562, 2, 547), (570, 570, 1, 11365), (571, 571, 1, 572), (573, 573, 1, 410),
      (574, 574, 1, 11366), (577, 577, 1, 578), (579, 579, 1, 384), (580, 580, 1, 649)]"

definition lower_runs_6 :: "(nat \<times> nat \<times> nat \<times> nat) list" where
  "lower_runs_6 =
     [(581, 581, 1, 652), (582, 590, 2, 583), (880, 882, 2, 881), (886, 886, 1, 887),
      (895, 895, 1, 1011), (902, 902, 1, 940), (904, 906, 1, 941), (908, 908, 1, 972),
      (910, 911, 1, 973), (913, 929, 1, 945), (931, 939, 1, 963), (975, 975, 1, 983)]"

definition lower_runs_7 :: "(nat \<times> nat \<times> nat \<times> nat) list" where
  "lower_runs_7 =
     [(984, 1006, 2, 985), (1012, 1012, 1, 952), (1015, 1015, 1, 1016), (1017, 1017, 1, 1010),
      (1018, 1018, 1, 1019), (1021, 1023, 1, 891), (1024, 1039, 1, 1104), (1040, 1071, 1, 1072),
      (1120, 1152, 2, 1121), (1162, 1214, 2, 1163), (1216, 1216, 1, 1231), (1217, 1229, 2, 1218)]"

definition lower_runs_8 :: "(nat \<times> nat \<times> nat \<times> nat) list" where
  "lower_runs_8 =
     [(1232, 1326, 2, 1233), (1329, 1366, 1, 1377), (4256, 4293, 1, 11520), (4295, 4295, 1, 11559),
      (4301, 4301, 1, 11565), (5024, 5103, 1, 43888), (5104, 5109, 1, 5112), (7312, 7354, 1, 4304),
      (7357, 7359, 1, 4349), (7680, 7828, 2, 7681), (7838, 7838, 1, 223), (7840, 7934, 2, 7841)]"

definition lower_runs_9 :: "(nat \<times> nat \<times> nat \<times> nat) list" where
  "lower_runs_9 =
     [(7944, 7951, 1, 7936), (7960, 7965, 1, 7952), (7976, 7983, 1, 7968), (7992, 7999, 1, 7984),
      (8008, 8013, 1, 8000), (8025, 8031, 2, 8017), (8040, 8047, 1, 8032), (8072, 8079, 1, 8064),
      (8088, 8095, 1, 8080), (8104, 8111, 1, 8096), (8120, 8121, 1, 8112), (8122, 8123, 1, 8048)]"

definition lower_runs_10 :: "(nat \<times> nat \<times> nat \<times> nat) list" where
  "lower_runs_10 =
     [(8124, 8124, 1, 8115), (8136, 8139, 1, 8050), (8140, 8140, 1, 8131), (8152, 8153, 1, 8144),
      (8154, 8155, 1, 8054), (8168, 8169, 1, 8160), (8170, 8171, 1, 8058), (8172, 8172, 1, 8165),
      (8184, 8185, 1, 8056), (8186, 8187, 1, 8060), (8188, 8188, 1, 8179), (8486, 8486, 1, 969)]"

definition lower_runs_11 :: "(nat \<times> nat \<times> nat \<times> nat) list" where
  "lower_runs_11 =
     [(8490, 8490, 1, 107), (8491, 8491, 1, 229), (8498, 8498, 1, 8526), (8544, 8559, 1, 8560),
      (8579, 8579, 1, 8580), (9398, 9423, 1, 9424), (11264, 11311, 1, 11312), (11360, 11360, 1, 11361),
      (11362, 11362, 1, 619), (11363, 11363, 1, 7549), (11364, 11364, 1, 637), (11367, 11371, 2, 11368)]"

definition lower_runs_12 :: "(nat \<times> nat \<times> nat \<times> nat) list" where
  "lower_runs_12 =
     [(11373, 11373, 1, 593), (11374, 11374, 1, 625), (11375, 11375, 1, 592), (11376, 11376, 1, 594),
      (11378, 11378, 1, 11379), (11381, 11381, 1, 11382), (11390, 11391, 1, 575), (11392, 11490, 2, 11393),
      (11499, 11501, 2, 11500), (11506, 11506, 1, 11507), (42560, 42604, 2, 42561), (42624, 42650, 2, 42625)]"

definition lower_runs_13 :: "(nat \<times> nat \<times> nat \<times> nat) list" where
  "lower_runs_13 =
     [(42786, 42798, 2, 42787), (42802, 42862, 2, 42803), (42873, 42875, 2, 42874), (42877, 42877, 1, 7545),
      (42878, 42886, 2, 42879), (42891, 42891, 1, 42892), (42893, 42893, 1, 613), (42896, 42898, 2, 42897),
      (42902, 42920, 2, 42903), (42922, 42922, 1, 614), (42923, 42923, 1, 604), (42924, 42924, 1, 609)]"

definition lower_runs_14 :: "(nat \<times> nat \<times> nat \<times> nat) list" where
  "lower_runs_14 =
     [(42925, 42925, 1, 620), (42926, 42926, 1, 618), (42928, 42928, 1, 670), (42929, 42929, 1, 647),
      (42930, 42930, 1, 669), (42931, 42931, 1, 43859), (42932, 42946, 2, 42933), (42948, 42948, 1, 42900),
      (42949, 42949, 1, 642), (42950, 42950, 1, 7566), (42951, 42953, 2, 42952), (42960, 42960, 1, 42961)]"

definition lower_runs_15 :: "(nat \<times> nat \<times> nat \<times> nat) list" where
  "lower_runs_15 =
     [(42966, 42968, 2, 42967), (42997, 42997, 1, 42998), (65313, 65338, 1, 65345), (66560, 66599, 1, 66600),
      (66736, 66771, 1, 66776), (66928, 66938, 1, 66967), (66940, 66954, 1, 66979), (66956, 66962, 1, 66995),
      (66964, 66965, 1, 67003), (68736, 68786, 1, 68800), (71840, 71871, 1, 71872), (93760, 93791, 1, 93792)]"

definition lower_runs_16 :: "(nat \<times> nat \<times> nat \<times> nat) list" where
  "lower_runs_16 =
     [(125184, 125217, 1, 125218)]"

definition lower_table :: "(nat \<times> nat \<times> nat \<times> nat) list" where
  "lower_table =
     lower_runs_1 @ lower_runs_2 @ lower_runs_3 @ lower_runs_4 @
     lower_runs_5 @ lower_runs_6 @ lower_runs_7 @ lower_runs_8 @
     lower_runs_9 @ lower_runs_10 @ lower_runs_11 @ lower_runs_12 @
     lower_runs_13 @ lower_runs_14 @ lower_runs_15 @ lower_runs_16"

fun in_run :: "codepoint \<Rightarrow> nat \<times> nat \<times> nat \<times> nat \<Rightarrow> bool" where
  "in_run c (lo, hi, step, target) \<longleftrightarrow> lo \<le> c \<and> c \<le> hi \<and> (c - lo) mod step = 0"

definition tolower_full :: "codepoint \<Rightarrow> str" where
  "tolower_full c =
     (if c = 304 then [105, 775]
      else case find (in_run c) lower_table of
             None \<Rightarrow> [c]
           | Some (lo, hi, step, target) \<Rightarrow> [target + (c - lo)])"

text \<open>
  A check on one run of such a table: the span from its first target \<open>t\<close> to its last
  target \<open>t'\<close> does not hold U+0130, holds no whitespace, and is clear of every run of
  the table: it lies below the run, or above it, or the run has step 2 and the targets
  all have the parity the run leaves out (\<open>fixed\<close> says that they share one parity).
\<close>

definition space_ranges :: "(nat \<times> nat) list" where
  "space_ranges =
     [(9, 13), (28, 32), (133, 133), (160, 160), (5760, 5760), (8192, 8202), (8232, 8233),
      (8239, 8239), (8287, 8287), (12288, 12288)]"

fun clear_of :: "nat \<Rightarrow> nat \<Rightarrow> bool \<Rightarrow> (nat \<times> nat \<times> nat \<times> nat) list \<Rightarrow> bool" where
  "clear_of t t' fixed [] = True"
| "clear_of t t' fixed ((lo, hi, step, target) # tab) =
     (if t' < lo then clear_of t t' fixed tab
      else if hi < t then clear_of t t' fixed tab
      else if fixed \<and> step = 2 \<and> t mod 2 \<noteq> lo mod 2 then clear_of t t' fixed tab
      else False)"

definition span_ok :: "(nat \<times> nat \<times> nat \<times> nat) list \<Rightarrow> bool \<Rightarrow> nat \<Rightarrow> nat \<Rightarrow> bool" where
  "span_ok tab fixed t t' \<longleftrightarrow>
     (t' < 304 \<or> 304 < t) \<and>
     list_all (\<lambda>(a, b). t' < a \<or> b < t) space_ranges \<and>
     clear_of t t' fixed tab"

fun run_targets_ok :: "(nat \<times> nat \<times> nat \<times> nat) list \<Rightarrow> nat \<times> nat \<times> nat \<times> nat \<Rightarrow> bool" where
  "run_targets_ok tab (lo, hi, step, target) =
     span_ok tab (step = 2 \<or> lo = hi) target (target + (hi - lo))"

text \<open>
  The one context-sensitive rule: capital sigma U+03A3 becomes the final form U+03C2
  when a cased letter precedes it and none follows, case-ignorable code points being
  skipped on both sides; otherwise it becomes U+03C3. The two properties are the
  \<open>Cased\<close> and \<open>Case_Ignorable\<close> properties of the same database, as ranges.
\<close>

definition cased_table :: "(nat \<times> nat) list" where
  "cased_table = [
    (65, 90), (97, 122), (170, 170), (181, 181), (186, 186), (192, 214), (216, 246),
    (248, 442), (444, 447), (452, 659), (661, 696), (704, 705), (736, 740), (837, 837),
    (880, 883), (886, 887), (890, 893), (895, 895), (902, 902), (904, 906), (908, 908),
    (910, 929), (931, 1013), (1015, 1153), (1162, 1327), (1329, 1366), (1376, 1416), (4256, 4293),
    (4295, 4295), (4301, 4301), (4304, 4346), (4349, 4351), (5024, 5109), (5112, 5117), (7296,
     7304),
    (7312, 7354), (7357, 7359), (7424, 7615), (7680, 7957), (7960, 7965), (7968, 8005), (8008,
     8013),
    (8016, 8023), (8025, 8025), (8027, 8027), (8029, 8029), (8031, 8061), (8064, 8116), (8118,
     8124),
    (8126, 8126), (8130, 8132), (8134, 8140), (8144, 8147), (8150, 8155), (8160, 8172), (8178,
     8180),
    (8182, 8188), (8305, 8305), (8319, 8319), (8336, 8348), (8450, 8450), (8455, 8455), (8458,
     8467),
    (8469, 8469), (8473, 8477), (8484, 8484), (8486, 8486), (8488, 8488), (8490, 8493), (8495,
     8500),
    (8505, 8505), (8508, 8511), (8517, 8521), (8526, 8526), (8544, 8575), (8579, 8580), (9398,
     9449),
    (11264, 11492), (11499, 11502), (11506, 11507), (11520, 11557), (11559, 11559), (11565, 11565),
     (42560, 42605),
    (42624, 42653), (42786, 42887), (42891, 42894), (42896, 42954), (42960, 42961), (42963, 42963),
     (42965, 42969),
    (42997, 42998), (43000, 43002), (43824, 43866), (43868, 43880), (43888, 43967), (64256, 64262),
     (64275, 64279),
    (65313, 65338), (65345, 65370), (66560, 66639), (66736, 66771), (66776, 66811), (66928, 66938),
     (66940, 66954),
    (66956, 66962), (66964, 66965), (66967, 66977), (66979, 66993), (66995, 67001), (67003, 67004),
     (67456, 67456),
    (67459, 67461), (67463, 67504), (67506, 67514), (68736, 68786), (68800, 68850), (71840, 71903),
     (93760, 93823),
    (119808, 119892), (119894, 119964), (119966, 119967), (119970, 119970), (119973, 119974),
     (119977, 119980), (119982, 119993),
    (119995, 119995), (119997, 120003), (120005, 120069), (120071, 120074), (120077, 120084),
     (120086, 120092), (120094, 120121),
    (120123, 120126), (120128, 120132), (120134, 120134), (120138, 120144), (120146, 120485),
     (120488, 120512), (120514, 120538),
    (120540, 120570), (120572, 120596), (120598, 120628), (120630, 120654), (120656, 120686),
     (120688, 120712), (120714, 120744),
    (120746, 120770), (120772, 120779), (122624, 122633), (122635, 122654), (125184, 125251),
     (127280, 127305), (127312, 127337),
    (127344, 127369)]"

definition case_ignorable_table :: "(nat \<times> nat) list" where
  "case_ignorable_table = [
    (39, 39), (46, 46), (58, 58), (94, 94), (96, 96), (168, 168), (173, 173),
    (175, 175), (180, 180), (183, 184), (688, 879), (884, 885), (890, 890), (900, 901),
    (903, 903), (1155, 1161), (1369, 1369), (1375, 1375), (1425, 1469), (1471, 1471), (1473, 1474),
    (1476, 1477), (1479, 1479), (1524, 1524), (1536, 1541), (1552, 1562), (1564, 1564), (1600,
     1600),
    (1611, 1631), (1648, 1648), (1750, 1757), (1759, 1768), (1770, 1773), (1807, 1807), (1809,
     1809),
    (1840, 1866), (1958, 1968), (2027, 2037), (2042, 2042), (2045, 2045), (2070, 2093), (2137,
     2139),
    (2184, 2184), (2192, 2193), (2200, 2207), (2249, 2306), (2362, 2362), (2364, 2364), (2369,
     2376),
    (2381, 2381), (2385, 2391), (2402, 2403), (2417, 2417), (2433, 2433), (2492, 2492), (2497,
     2500),
    (2509, 2509), (2530, 2531), (2558, 2558), (2561, 2562), (2620, 2620), (2625, 2626), (2631,
     2632),
    (2635, 2637), (2641, 2641), (2672, 2673), (2677, 2677), (2689, 2690), (2748, 2748), (2753,
     2757),
    (2759, 2760), (2765, 2765), (2786, 2787), (2810, 2815), (2817, 2817), (2876, 2876), (2879,
     2879),
    (2881, 2884), (2893, 2893), (2901, 2902), (2914, 2915), (2946, 2946), (3008, 3008), (3021,
     3021),
    (3072, 3072), (3076, 3076), (3132, 3132), (3134, 3136), (3142, 3144), (3146, 3149), (3157,
     3158),
    (3170, 3171), (3201, 3201), (3260, 3260), (3263, 3263), (3270, 3270), (3276, 3277), (3298,
     3299),
    (3328, 3329), (3387, 3388), (3393, 3396), (3405, 3405), (3426, 3427), (3457, 3457), (3530,
     3530),
    (3538, 3540), (3542, 3542), (3633, 3633), (3636, 3642), (3654, 3662), (3761, 3761), (3764,
     3772),
    (3782, 3782), (3784, 3789), (3864, 3865), (3893, 3893), (3895, 3895), (3897, 3897), (3953,
     3966),
    (3968, 3972), (3974, 3975), (3981, 3991), (3993, 4028), (4038, 4038), (4141, 4144), (4146,
     4151),
    (4153, 4154), (4157, 4158), (4184, 4185), (4190, 4192), (4209, 4212), (4226, 4226), (4229,
     4230),
    (4237, 4237), (4253, 4253), (4348, 4348), (4957, 4959), (5906, 5908), (5938, 5939), (5970,
     5971),
    (6002, 6003), (6068, 6069), (6071, 6077), (6086, 6086), (6089, 6099), (6103, 6103), (6109,
     6109),
    (6155, 6159), (6211, 6211), (6277, 6278), (6313, 6313), (6432, 6434), (6439, 6440), (6450,
     6450),
    (6457, 6459), (6679, 6680), (6683, 6683), (6742, 6742), (6744, 6750), (6752, 6752), (6754,
     6754),
    (6757, 6764), (6771, 6780), (6783, 6783), (6823, 6823), (6832, 6862), (6912, 6915), (6964,
     6964),
    (6966, 6970), (6972, 6972), (6978, 6978), (7019, 7027), (7040, 7041), (7074, 7077), (7080,
     7081),
    (7083, 7085), (7142, 7142), (7144, 7145), (7149, 7149), (7151, 7153), (7212, 7219), (7222,
     7223),
    (7288, 7293), (7376, 7378), (7380, 7392), (7394, 7400), (7405, 7405), (7412, 7412), (7416,
     7417),
    (7468, 7530), (7544, 7544), (7579, 7679), (8125, 8125), (8127, 8129), (8141, 8143), (8157,
     8159),
    (8173, 8175), (8189, 8190), (8203, 8207), (8216, 8217), (8228, 8228), (8231, 8231), (8234,
     8238),
    (8288, 8292), (8294, 8303), (8305, 8305), (8319, 8319), (8336, 8348), (8400, 8432), (11388,
     11389),
    (11503, 11505), (11631, 11631), (11647, 11647), (11744, 11775), (11823, 11823), (12293, 12293),
     (12330, 12333),
    (12337, 12341), (12347, 12347), (12441, 12446), (12540, 12542), (40981, 40981), (42232, 42237),
     (42508, 42508),
    (42607, 42610), (42612, 42621), (42623, 42623), (42652, 42655), (42736, 42737), (42752, 42785),
     (42864, 42864),
    (42888, 42890), (42994, 42996), (43000, 43001), (43010, 43010), (43014, 43014), (43019, 43019),
     (43045, 43046),
    (43052, 43052), (43204, 43205), (43232, 43249), (43263, 43263), (43302, 43309), (43335, 43345),
     (43392, 43394),
    (43443, 43443), (43446, 43449), (43452, 43453), (43471, 43471), (43493, 43494), (43561, 43566),
     (43569, 43570),
    (43573, 43574), (43587, 43587), (43596, 43596), (43632, 43632), (43644, 43644), (43696, 43696),
     (43698, 43700),
    (43703, 43704), (43710, 43711), (43713, 43713), (43741, 43741), (43756, 43757), (43763, 43764),
     (43766, 43766),
    (43867, 43871), (43881, 43883), (44005, 44005), (44008, 44008), (44013, 44013), (64286, 64286),
     (64434, 64450),
    (65024, 65039), (65043, 65043), (65056, 65071), (65106, 65106), (65109, 65109), (65279, 65279),
     (65287, 65287),
    (65294, 65294), (65306, 65306), (65342, 65342), (65344, 65344), (65392, 65392), (65438, 65439),
     (65507, 65507),
    (65529, 65531), (66045, 66045), (66272, 66272), (66422, 66426), (67456, 67461), (67463, 67504),
     (67506, 67514),
    (68097, 68099), (68101, 68102), (68108, 68111), (68152, 68154), (68159, 68159), (68325, 68326),
     (68900, 68903),
    (69291, 69292), (69446, 69456), (69506, 69509), (69633, 69633), (69688, 69702), (69744, 69744),
     (69747, 69748),
    (69759, 69761), (69811, 69814), (69817, 69818), (69821, 69821), (69826, 69826), (69837, 69837),
     (69888, 69890),
    (69927, 69931), (69933, 69940), (70003, 70003), (70016, 70017), (70070, 70078), (70089, 70092),
     (70095, 70095),
    (70191, 70193), (70196, 70196), (70198, 70199), (70206, 70206), (70367, 70367), (70371, 70378),
     (70400, 70401),
    (70459, 70460), (70464, 70464), (70502, 70508), (70512, 70516), (70712, 70719), (70722, 70724),
     (70726, 70726),
    (70750, 70750), (70835, 70840), (70842, 70842), (70847, 70848), (70850, 70851), (71090, 71093),
     (71100, 71101),
    (71103, 71104), (71132, 71133), (71219, 71226), (71229, 71229), (71231, 71232), (71339, 71339),
     (71341, 71341),
    (71344, 71349), (71351, 71351), (71453, 71455), (71458, 71461), (71463, 71467), (71727, 71735),
     (71737, 71738),
    (71995, 71996), (71998, 71998), (72003, 72003), (72148, 72151), (72154, 72155), (72160, 72160),
     (72193, 72202),
    (72243, 72248), (72251, 72254), (72263, 72263), (72273, 72278), (72281, 72283), (72330, 72342),
     (72344, 72345),
    (72752, 72758), (72760, 72765), (72767, 72767), (72850, 72871), (72874, 72880), (72882, 72883),
     (72885, 72886),
    (73009, 73014), (73018, 73018), (73020, 73021), (73023, 73029), (73031, 73031), (73104, 73105),
     (73109, 73109),
    (73111, 73111), (73459, 73460), (78896, 78904), (92912, 92916), (92976, 92982), (92992, 92995),
     (94031, 94031),
    (94095, 94111), (94176, 94177), (94179, 94180), (110576, 110579), (110581, 110587), (110589,
     110590), (113821, 113822),
    (113824, 113827), (118528, 118573), (118576, 118598), (119143, 119145), (119155, 119170),
     (119173, 119179), (119210, 119213),
    (119362, 119364), (121344, 121398), (121403, 121452), (121461, 121461), (121476, 121476),
     (121499, 121503), (121505, 121519),
    (122880, 122886), (122888, 122904), (122907, 122913), (122915, 122916), (122918, 122922),
     (123184, 123197), (123566, 123566),
    (123628, 123631), (125136, 125142), (125252, 125259), (127995, 127999), (917505, 917505),
     (917536, 917631), (917760, 917999)]"

definition in_ranges :: "codepoint \<Rightarrow> (nat \<times> nat) list \<Rightarrow> bool" where
  "in_ranges c rs = list_ex (\<lambda>(lo, hi). lo \<le> c \<and> c \<le> hi) rs"

definition is_cased :: "codepoint \<Rightarrow> bool" where
  "is_cased c = in_ranges c cased_table"

definition is_case_ignorable :: "codepoint \<Rightarrow> bool" where
  "is_case_ignorable c = in_ranges c case_ignorable_table"

text \<open>
  The code points for which \<^verbatim>\<open>str.isupper()\<close> holds (the property \<open>Uppercase\<close> of the same
  database), as runs \<open>(lo, hi, step)\<close>.
\<close>

definition uppercase_table :: "(nat \<times> nat \<times> nat) list" where
  "uppercase_table =
     [(65, 90, 1), (192, 214, 1), (216, 222, 1), (256, 310, 2), (313, 327, 2), (330, 374, 2),
      (376, 377, 1), (379, 381, 2), (385, 386, 1), (388, 388, 1), (390, 391, 1), (393, 395, 1),
      (398, 401, 1), (403, 404, 1), (406, 408, 1), (412, 413, 1), (415, 416, 1), (418, 420, 2),
      (422, 423, 1), (425, 425, 1), (428, 428, 1), (430, 431, 1), (433, 435, 1), (437, 437, 1),
      (439, 440, 1), (444, 444, 1), (452, 452, 1), (455, 455, 1), (458, 458, 1), (461, 475, 2),
      (478, 494, 2), (497, 497, 1), (500, 500, 1), (502, 504, 1), (506, 562, 2), (570, 571, 1),
      (573, 574, 1), (577, 577, 1), (579, 582, 1), (584, 590, 2), (880, 882, 2), (886, 886, 1),
      (895, 895, 1), (902, 902, 1), (904, 906, 1), (908, 908, 1), (910, 911, 1), (913, 929, 1),
      (931, 939, 1), (975, 975, 1), (978, 980, 1), (984, 1006, 2), (1012, 1012, 1), (1015, 1015, 1),
      (1017, 1018, 1), (1021, 1071, 1), (1120, 1152, 2), (1162, 1214, 2), (1216, 1217, 1), (1219, 1229, 2),
      (1232, 1326, 2), (1329, 1366, 1), (4256, 4293, 1), (4295, 4295, 1), (4301, 4301, 1), (5024, 5109, 1),
      (7312, 7354, 1), (7357, 7359, 1), (7680, 7828, 2), (7838, 7934, 2), (7944, 7951, 1), (7960, 7965, 1),
      (7976, 7983, 1), (7992, 7999, 1), (8008, 8013, 1), (8025, 8031, 2), (8040, 8047, 1), (8120, 8123, 1),
      (8136, 8139, 1), (8152, 8155, 1), (8168, 8172, 1), (8184, 8187, 1), (8450, 8450, 1), (8455, 8455, 1),
      (8459, 8461, 1), (8464, 8466, 1), (8469, 8469, 1), (8473, 8477, 1), (8484, 8488, 2), (8490, 8493, 1),
      (8496, 8499, 1), (8510, 8511, 1), (8517, 8517, 1), (8544, 8559, 1), (8579, 8579, 1), (9398, 9423, 1),
      (11264, 11311, 1), (11360, 11360, 1), (11362, 11364, 1), (11367, 11371, 2), (11373, 11376, 1), (11378, 11378, 1),
      (11381, 11381, 1), (11390, 11392, 1), (11394, 11490, 2), (11499, 11501, 2), (11506, 11506, 1), (42560, 42604, 2),
      (42624, 42650, 2), (42786, 42798, 2), (42802, 42862, 2), (42873, 42875, 2), (42877, 42878, 1), (42880, 42886, 2),
      (42891, 42893, 2), (42896, 42898, 2), (42902, 42920, 2), (42922, 42926, 1), (42928, 42932, 1), (42934, 42946, 2),
      (42948, 42951, 1), (42953, 42953, 1), (42960, 42960, 1), (42966, 42968, 2), (42997, 42997, 1), (65313, 65338, 1),
      (66560, 66599, 1), (66736, 66771, 1), (66928, 66938, 1), (66940, 66954, 1), (66956, 66962, 1), (66964, 66965, 1),
      (68736, 68786, 1), (71840, 71871, 1), (93760, 93791, 1), (119808, 119833, 1), (119860, 119885, 1), (119912, 119937, 1),
      (119964, 119964, 1), (119966, 119967, 1), (119970, 119970, 1), (119973, 119974, 1), (119977, 119980, 1), (119982, 119989, 1),
      (120016, 120041, 1), (120068, 120069, 1), (120071, 120074, 1), (120077, 120084, 1), (120086, 120092, 1), (120120, 120121, 1),
      (120123, 120126, 1), (120128, 120132, 1), (120134, 120134, 1), (120138, 120144, 1), (120172, 120197, 1), (120224, 120249, 1),
      (120276, 120301, 1), (120328, 120353, 1), (120380, 120405, 1), (120432, 120457, 1), (120488, 120512, 1), (120546, 120570, 1),
      (120604, 120628, 1), (120662, 120686, 1), (120720, 120744, 1), (120778, 120778, 1), (125184, 125217, 1), (127280, 127305, 1),
      (127312, 127337, 1), (127344, 127369, 1)]"

definition is_uppercase :: "codepoint \<Rightarrow> bool" where
  "is_uppercase c =
     list_ex (\<lambda>(lo, hi, step). lo \<le> c \<and> c \<le> hi \<and> (c - lo) mod step = 0) uppercase_table"

text \<open>\<open>left\<close> holds the code points to the left of the sigma, nearest first.\<close>

definition final_sigma :: "str \<Rightarrow> str \<Rightarrow> bool" where
  "final_sigma left right =
     (case dropWhile is_case_ignorable left of
        [] \<Rightarrow> False
      | c # _ \<Rightarrow>
          is_cased c \<and>
          (case dropWhile is_case_ignorable right of
             [] \<Rightarrow> True
           | c' # _ \<Rightarrow> \<not> is_cased c'))"

fun lower_from :: "str \<Rightarrow> str \<Rightarrow> str" where
  "lower_from left [] = []"
| "lower_from left (c # cs) =
     (if c = 931 then [if final_sigma left cs then 962 else 963] else tolower_full c)
     @ lower_from (c # left) cs"

definition lower :: "str \<Rightarrow> str" where
  "lower s = lower_from [] s"

section \<open>Exceptions\<close>

text \<open>
  A raise is the left summand of the result. \<open>KeyboardInterrupt\<close> and \<open>SystemExit\<close> derive
  from \<^verbatim>\<open>BaseException\<close> only and pass through \<^verbatim>\<open>except Exception\<close>; the other
  constructors, \<open>OtherException\<close> for every class not named here, are instances of
  \<^verbatim>\<open>Exception\<close> and are caught by it.
\<close>

datatype exn =
    ValueError str
  | RuntimeError str
  | AttributeError str
  | KeyError str
  | UnboundLocalError str
  | OtherException str
  | KeyboardInterrupt
  | SystemExit

fun is_Exception :: "exn \<Rightarrow> bool" where
  "is_Exception KeyboardInterrupt = False"
| "is_Exception SystemExit = False"
| "is_Exception _ = True"

section \<open>The dataset\<close>

text \<open>
  A \<^verbatim>\<open>dict\<close> keeps its keys in insertion order: it is a list of pairs. A dict display
  \<^verbatim>\<open>{k1: v1, ...}\<close> stores its items from left to right; storing under a key
  already present replaces the value and leaves the key where it is.
\<close>

type_synonym ('k, 'v) dict = "('k \<times> 'v) list"

fun dict_setitem :: "('k, 'v) dict \<Rightarrow> 'k \<Rightarrow> 'v \<Rightarrow> ('k, 'v) dict" where
  "dict_setitem [] k v = [(k, v)]"
| "dict_setitem ((k', v') # d) k v =
     (if k' = k then (k, v) # d else (k', v') # dict_setitem d k v)"

definition dict_display :: "('k \<times> 'v) list \<Rightarrow> ('k, 'v) dict" where
  "dict_display items = foldl (\<lambda>d (k, v). dict_setitem d k v) [] items"



record WeatherDataset =
  data :: "(str, str) dict"

text \<open>
  The message of the \<^verbatim>\<open>ValueError\<close>: "location", a space and four Chinese characters
  (must not be empty).
\<close>

definition empty_location_message :: str where
  "empty_location_message = [108, 111, 99, 97, 116, 105, 111, 110, 32, 19981, 33021, 20026, 31354]"

text \<open>
  What the f-string appends to the location: a full-width colon U+FF1A and the
  default description (sunny, 25 degrees C, light breeze), with full-width commas.
\<close>

definition fallback_suffix :: str where
  "fallback_suffix = [65306, 26228, 65292, 50, 53, 176, 67, 65292, 24494, 39118]"

definition lookup :: "WeatherDataset \<Rightarrow> str \<Rightarrow> exn + str" where
  "lookup self location =
     (let key = lower (strip location) in
      if key = [] then Inl (ValueError empty_location_message)
      else case map_of (data self) key of
             Some text \<Rightarrow> Inr text
           | None \<Rightarrow> Inr (location @ fallback_suffix))"

text \<open>
  The five cities of the source, in its order: Beijing, Shanghai, Guangzhou, Shenzhen,
  Chengdu, each with its description (city, full-width colon, weather).
\<close>

definition SIMULATED_DATASET :: WeatherDataset where
  "SIMULATED_DATASET = \<lparr>data = dict_display
     [([21271, 20140],
       [21271, 20140, 65306, 22810, 20113, 65292, 50, 50, 176, 67, 65292, 19996, 21271, 39118, 32,
        51, 32, 32423]),
      ([19978, 28023],
       [19978, 28023, 65306, 23567, 38632, 65292, 50, 56, 176, 67, 65292, 28287, 24230, 32, 56, 48,
        37]),
      ([24191, 24030],
       [24191, 24030, 65306, 38453, 38632, 65292, 51, 48, 176, 67, 65292, 35199, 21335, 39118, 32,
        50, 32, 32423]),
      ([28145, 22323],
       [28145, 22323, 65306, 38452, 65292, 50, 57, 176, 67, 65292, 28287, 24230, 32, 55, 48, 37]),
      ([25104, 37117],
       [25104, 37117, 65306, 23567, 38632, 65292, 50, 52, 176, 67, 65292, 35199, 39118, 32, 49, 32,
        32423])]\<rparr>"

section \<open>The dataset in the store\<close>

text \<open>
  The same method with the object store written out. The dataclass is frozen, but the
  dict its field refers to is an ordinary mutable object: \<open>self_data\<close> is the reference
  held in \<^verbatim>\<open>self.data\<close>, the store maps a reference to the dict it holds at the
  moment, and every operation on a dict returns the store it leaves. \<^verbatim>\<open>key in d\<close>
  and \<^verbatim>\<open>d[key]\<close> are the two the method performs.
\<close>

type_synonym ref = nat
type_synonym store = "ref \<Rightarrow> (str, str) dict"

definition dict_contains :: "ref \<Rightarrow> str \<Rightarrow> store \<Rightarrow> bool \<times> store" where
  "dict_contains r key \<sigma> = (map_of (\<sigma> r) key \<noteq> None, \<sigma>)"

definition dict_getitem :: "ref \<Rightarrow> str \<Rightarrow> store \<Rightarrow> (exn + str) \<times> store" where
  "dict_getitem r key \<sigma> =
     (case map_of (\<sigma> r) key of None \<Rightarrow> (Inl (KeyError key), \<sigma>) | Some v \<Rightarrow> (Inr v, \<sigma>))"

definition lookup_in_store :: "ref \<Rightarrow> str \<Rightarrow> store \<Rightarrow> (exn + str) \<times> store" where
  "lookup_in_store self_data location \<sigma> =
     (let key = lower (strip location) in
      if key = [] then (Inl (ValueError empty_location_message), \<sigma>)
      else
        (let (present, \<sigma>') = dict_contains self_data key \<sigma> in
         if present then dict_getitem self_data key \<sigma>'
         else (Inr (location @ fallback_suffix), \<sigma>')))"

section \<open>The agent runtime\<close>

text \<open>
  A value among the arguments of a tool call, given by what \<^verbatim>\<open>str()\<close> makes of it. A
  \<^verbatim>\<open>str\<close> is its own string form. Any other object (\<^verbatim>\<open>None\<close>, a number, a
  container, an instance of a class with its own \<^verbatim>\<open>__str__\<close>) is given by the string
  that \<^verbatim>\<open>str()\<close> returns for it or the exception \<^verbatim>\<open>str()\<close> raises (an integer beyond
  the interpreter's digit limit, a failing \<^verbatim>\<open>__str__\<close>).
\<close>

datatype pyobj = PyStr str | PyObject "exn + str"

fun py_str :: "pyobj \<Rightarrow> exn + str" where
  "py_str (PyStr s) = Inr s"
| "py_str (PyObject r) = r"

record function_tool =
  tool_name :: str
  tool_description :: str
  properties :: "(str \<times> str \<times> str) list"
  required :: "str list"

record payload =
  model :: str
  agent_name :: str
  instructions :: str
  tools :: "function_tool list"

text \<open>
  The Chinese literals: the instructions (you are a weather agent; when the user gives a
  place, call the tool get_mock_weather), the tool's description (returns a mock weather
  string for a place) and the parameter's description (name of the place).
\<close>

definition agent_payload :: payload where
  "agent_payload =
     \<lparr>model = ascii ''gpt-4.1-mini'',
      agent_name = ascii ''Mock Weather Agent'',
      instructions =
        [20320, 26159, 19968, 20010, 22825, 27668, 26597, 35810, 32, 65, 103, 101, 110, 116,
         12290, 32, 24403, 29992, 25143, 32473, 20986, 22320, 28857, 26102, 65292, 35831,
         35843, 29992, 32, 103, 101, 116, 95, 109, 111, 99, 107, 95, 119, 101, 97, 116, 104,
         101, 114, 32, 24037, 20855, 36820, 22238, 27169, 25311, 22825, 27668, 12290],
      tools =
        [\<lparr>tool_name = ascii ''get_mock_weather'',
          tool_description =
            [26681, 25454, 22320, 28857, 36820, 22238, 27169, 25311, 22825, 27668, 23383,
             31526, 20018],
          properties = [(ascii ''location'', ascii ''string'', [22320, 28857, 21517, 31216])],
          required = [ascii ''location'']\<rparr>]\<rparr>"

record tool_call =
  call_id :: str
  arguments :: "str \<rightharpoonup> pyobj"

record tool_reply =
  tool_call_id :: str
  tool_output :: str

record agent =
  agent_id :: str

record message =
  role :: str
  content :: str

text \<open>
  What the runtime does while the program drives the stream, seen from the program: it
  asks for a tool call and goes on from what the callback returned or raised (a runtime
  that does not catch goes on by raising the same exception), or it raises, or
  \<^verbatim>\<open>get_final_response()\<close> returns; the final response is given by what reading its
  \<^verbatim>\<open>output_text\<close> yields, a string or an exception.
\<close>

datatype stream =
    ToolCall tool_call "exn + tool_reply \<Rightarrow> stream"
  | Raises exn
  | FinalResponse "exn + str"

text \<open>
  The context manager the \<^verbatim>\<open>with\<close> statement has entered: what the stream does, and
  its \<^verbatim>\<open>__exit__\<close>, called with the exception that left the block or with
  \<^verbatim>\<open>None\<close>; it raises, or it returns and its truth value says whether the exception is
  suppressed.
\<close>

record stream_context =
  events :: stream
  cm_exit :: "exn option \<Rightarrow> exn + bool"

text \<open>
  A client handle: its truth value (\<^verbatim>\<open>client or OpenAI()\<close>),
  \<^verbatim>\<open>agents.create(**payload)\<close>, and
  \<^verbatim>\<open>agents.responses.stream(agent_id=..., input=..., tool_resolver=...)\<close> with the
  \<^verbatim>\<open>__enter__\<close> of what it returns. A missing attribute is the \<^verbatim>\<open>AttributeError\<close> of
  the step that reads it.
\<close>

record client =
  truthy :: bool
  agents_create :: "payload \<Rightarrow> exn + agent"
  responses_stream :: "str \<Rightarrow> message list \<Rightarrow> exn + stream_context"

text \<open>
  The stub class bound to \<^verbatim>\<open>OpenAI\<close> when the SDK is not installed: constructing it
  raises \<^verbatim>\<open>RuntimeError\<close> (SDK not installed, no real agent can be created).
\<close>

definition sdk_missing_message :: str where
  "sdk_missing_message =
     [79, 112, 101, 110, 65, 73, 32, 83, 68, 75, 32, 26410, 23433, 35013, 65292, 26080, 27861,
      21019, 24314, 30495, 23454, 32, 65, 103, 101, 110, 116]"

definition OpenAI_stub :: "exn + client" where
  "OpenAI_stub = Inl (RuntimeError sdk_missing_message)"

section \<open>The resolver\<close>

definition resolve_weather_tool :: "(str \<rightharpoonup> pyobj) \<Rightarrow> exn + str" where
  "resolve_weather_tool args =
     (case py_str (case args (ascii ''location'') of None \<Rightarrow> PyStr [] | Some v \<Rightarrow> v) of
        Inl e \<Rightarrow> Inl e
      | Inr location \<Rightarrow> lookup SIMULATED_DATASET location)"

text \<open>The lambda passed as \<^verbatim>\<open>tool_resolver\<close>.\<close>

definition tool_resolver :: "tool_call \<Rightarrow> exn + tool_reply" where
  "tool_resolver tc =
     (case resolve_weather_tool (arguments tc) of
        Inl e \<Rightarrow> Inl e
      | Inr text \<Rightarrow> Inr \<lparr>tool_call_id = call_id tc, tool_output = text\<rparr>)"

text \<open>
  The body of the \<^verbatim>\<open>with\<close> block: \<^verbatim>\<open>stream.until_done()\<close>, during which the runtime
  calls the resolver, and \<^verbatim>\<open>stream.get_final_response()\<close>.
\<close>

primrec until_done :: "(tool_call \<Rightarrow> exn + tool_reply) \<Rightarrow> stream \<Rightarrow> exn + (exn + str)" where
  "until_done resolver (ToolCall tc continue) = until_done resolver (continue (resolver tc))"
| "until_done resolver (Raises e) = Inl e"
| "until_done resolver (FinalResponse final_response) = Inr final_response"

text \<open>
  The \<^verbatim>\<open>with\<close> statement and the \<^verbatim>\<open>return\<close> after it. When \<^verbatim>\<open>__exit__\<close> suppresses
  an exception of the block, \<^verbatim>\<open>final_response\<close> was never assigned and reading it raises
  \<^verbatim>\<open>UnboundLocalError\<close>.
\<close>

definition final_response_unbound :: exn where
  "final_response_unbound = UnboundLocalError (ascii ''final_response'')"

definition with_stream :: "stream_context \<Rightarrow> exn + str" where
  "with_stream ctx =
     (case until_done tool_resolver (events ctx) of
        Inl e \<Rightarrow>
          (case cm_exit ctx (Some e) of
             Inl e' \<Rightarrow> Inl e'
           | Inr suppressed \<Rightarrow> if suppressed then Inl final_response_unbound else Inl e)
      | Inr final_response \<Rightarrow>
          (case cm_exit ctx None of
             Inl e' \<Rightarrow> Inl e'
           | Inr _ \<Rightarrow>
               (case final_response of
                  Inl e \<Rightarrow> Inl e
                | Inr output_text \<Rightarrow> Inr (strip output_text))))"

text \<open>
  \<^verbatim>\<open>client or OpenAI()\<close>. \<open>OpenAI\<close> is what the call \<^verbatim>\<open>OpenAI()\<close> gives in the
  environment the program runs in: a client, or the exception of the constructor.
\<close>

definition runtime_client :: "(exn + client) \<Rightarrow> client option \<Rightarrow> exn + client" where
  "runtime_client OpenAI client =
     (case client of
        None \<Rightarrow> OpenAI
      | Some c \<Rightarrow> if truthy c then Inr c else OpenAI)"

text \<open>The body of the \<^verbatim>\<open>try\<close>.\<close>

definition remote_answer :: "(exn + client) \<Rightarrow> str \<Rightarrow> client option \<Rightarrow> exn + str" where
  "remote_answer OpenAI location client =
     (case runtime_client OpenAI client of
        Inl e \<Rightarrow> Inl e
      | Inr c \<Rightarrow>
          (case agents_create c agent_payload of
             Inl e \<Rightarrow> Inl e
           | Inr agent \<Rightarrow>
               (case responses_stream c (agent_id agent)
                       [\<lparr>role = ascii ''user'', content = location\<rparr>] of
                  Inl e \<Rightarrow> Inl e
                | Inr ctx \<Rightarrow> with_stream ctx)))"

definition query_weather :: "(exn + client) \<Rightarrow> str \<Rightarrow> client option \<Rightarrow> exn + str" where
  "query_weather OpenAI location client =
     (case remote_answer OpenAI location client of
        Inr text \<Rightarrow> Inr text
      | Inl e \<Rightarrow> if is_Exception e then lookup SIMULATED_DATASET location else Inl e)"


section \<open>Example clients\<close>

text \<open>
  The client of the repository's test, a \<^verbatim>\<open>SimpleNamespace\<close> without attributes:
  reading \<^verbatim>\<open>agents\<close> raises \<^verbatim>\<open>AttributeError\<close>.
\<close>

definition DummyClient :: client where
  "DummyClient =
     \<lparr>truthy = True,
      agents_create = (\<lambda>p. Inl (AttributeError (ascii ''agents''))),
      responses_stream = (\<lambda>a i. Inl (AttributeError (ascii ''agents'')))\<rparr>"

text \<open>A client whose request is interrupted from the keyboard while the agent is created.\<close>

definition interrupted_client :: client where
  "interrupted_client =
     \<lparr>truthy = True,
      agents_create = (\<lambda>p. Inl KeyboardInterrupt),
      responses_stream = (\<lambda>a i. Inl KeyboardInterrupt)\<rparr>"

text \<open>
  Two runtimes that ask for one tool call with the given arguments. The first lets an
  exception of the callback pass and otherwise answers with the tool's output; the
  second catches the exception and answers on its own. Their \<^verbatim>\<open>__exit__\<close> suppresses
  nothing.
\<close>

definition one_call :: "(str \<rightharpoonup> pyobj) \<Rightarrow> tool_call" where
  "one_call args = \<lparr>call_id = ascii ''call_1'', arguments = args\<rparr>"

definition passing_runtime :: "exn + tool_reply \<Rightarrow> stream" where
  "passing_runtime r =
     (case r of Inl e \<Rightarrow> Raises e | Inr reply \<Rightarrow> FinalResponse (Inr (tool_output reply)))"

definition catching_runtime :: "exn + tool_reply \<Rightarrow> stream" where
  "catching_runtime r =
     (case r of
        Inl e \<Rightarrow> FinalResponse (Inr (ascii ''recovered''))
      | Inr reply \<Rightarrow> FinalResponse (Inr (tool_output reply)))"

definition one_call_context :: "(exn + tool_reply \<Rightarrow> stream) \<Rightarrow> (str \<rightharpoonup> pyobj) \<Rightarrow> stream_context" where
  "one_call_context runtime args =
     \<lparr>events = ToolCall (one_call args) runtime, cm_exit = (\<lambda>e. Inr False)\<rparr>"

definition one_call_client :: "(exn + tool_reply \<Rightarrow> stream) \<Rightarrow> (str \<rightharpoonup> pyobj) \<Rightarrow> client" where
  "one_call_client runtime args =
     \<lparr>truthy = True,
      agents_create = (\<lambda>p. Inr \<lparr>agent_id = ascii ''agent_1''\<rparr>),
      responses_stream = (\<lambda>a i. Inr (one_call_context runtime args))\<rparr>"

text \<open>A store that holds a table under one reference and empty dicts elsewhere.\<close>

definition example_table :: "(str, str) dict" where
  "example_table = [(ascii ''a'', ascii ''1''), (ascii ''b'', ascii ''2'')]"

definition store_with :: "ref \<Rightarrow> (str, str) dict \<Rightarrow> store" where
  "store_with r d = (\<lambda>r'. if r' = r then d else [])"

section \<open>The lowercase table\<close>

lemmas lower_runs_defs =
  lower_runs_1_def lower_runs_2_def lower_runs_3_def lower_runs_4_def
  lower_runs_5_def lower_runs_6_def lower_runs_7_def lower_runs_8_def
  lower_runs_9_def lower_runs_10_def lower_runs_11_def lower_runs_12_def
  lower_runs_13_def lower_runs_14_def lower_runs_15_def lower_runs_16_def

lemma clear_of_append:
  "clear_of t t' fixed (xs @ ys) \<longleftrightarrow> clear_of t t' fixed xs \<and> clear_of t t' fixed ys"
  by (induction t t' fixed xs rule: clear_of.induct) auto

text \<open>A span of targets that lies below or above a block is clear of it.\<close>

lemma clear_of_runs_1_below: "t' < 65 \<Longrightarrow> clear_of t t' fixed lower_runs_1"
  by (simp add: lower_runs_1_def)

lemma clear_of_runs_1_above: "390 < t \<Longrightarrow> clear_of t t' fixed lower_runs_1"
  by (simp add: lower_runs_1_def)

lemma clear_of_runs_2_below: "t' < 391 \<Longrightarrow> clear_of t t' fixed lower_runs_2"
  by (simp add: lower_runs_2_def)

lemma clear_of_runs_2_above: "408 < t \<Longrightarrow> clear_of t t' fixed lower_runs_2"
  by (simp add: lower_runs_2_def)

lemma clear_of_runs_3_below: "t' < 412 \<Longrightarrow> clear_of t t' fixed lower_runs_3"
  by (simp add: lower_runs_3_def)

lemma clear_of_runs_3_above: "437 < t \<Longrightarrow> clear_of t t' fixed lower_runs_3"
  by (simp add: lower_runs_3_def)

lemma clear_of_runs_4_below: "t' < 439 \<Longrightarrow> clear_of t t' fixed lower_runs_4"
  by (simp add: lower_runs_4_def)

lemma clear_of_runs_4_above: "500 < t \<Longrightarrow> clear_of t t' fixed lower_runs_4"
  by (simp add: lower_runs_4_def)

lemma clear_of_runs_5_below: "t' < 502 \<Longrightarrow> clear_of t t' fixed lower_runs_5"
  by (simp add: lower_runs_5_def)

lemma clear_of_runs_5_above: "580 < t \<Longrightarrow> clear_of t t' fixed lower_runs_5"
  by (simp add: lower_runs_5_def)

lemma clear_of_runs_6_below: "t' < 581 \<Longrightarrow> clear_of t t' fixed lower_runs_6"
  by (simp add: lower_runs_6_def)

lemma clear_of_runs_6_above: "975 < t \<Longrightarrow> clear_of t t' fixed lower_runs_6"
  by (simp add: lower_runs_6_def)

lemma clear_of_runs_7_below: "t' < 984 \<Longrightarrow> clear_of t t' fixed lower_runs_7"
  by (simp add: lower_runs_7_def)

lemma clear_of_runs_7_above: "1229 < t \<Longrightarrow> clear_of t t' fixed lower_runs_7"
  by (simp add: lower_runs_7_def)

lemma clear_of_runs_8_below: "t' < 1232 \<Longrightarrow> clear_of t t' fixed lower_runs_8"
  by (simp add: lower_runs_8_def)

lemma clear_of_runs_8_above: "7934 < t \<Longrightarrow> clear_of t t' fixed lower_runs_8"
  by (simp add: lower_runs_8_def)

lemma clear_of_runs_9_below: "t' < 7944 \<Longrightarrow> clear_of t t' fixed lower_runs_9"
  by (simp add: lower_runs_9_def)

lemma clear_of_runs_9_above: "8123 < t \<Longrightarrow> clear_of t t' fixed lower_runs_9"
  by (simp add: lower_runs_9_def)

lemma clear_of_runs_10_below: "t' < 8124 \<Longrightarrow> clear_of t t' fixed lower_runs_10"
  by (simp add: lower_runs_10_def)

lemma clear_of_runs_10_above: "8486 < t \<Longrightarrow> clear_of t t' fixed lower_runs_10"
  by (simp add: lower_runs_10_def)

lemma clear_of_runs_11_below: "t' < 8490 \<Longrightarrow> clear_of t t' fixed lower_runs_11"
  by (simp add: lower_runs_11_def)

lemma clear_of_runs_11_above: "11371 < t \<Longrightarrow> clear_of t t' fixed lower_runs_11"
  by (simp add: lower_runs_11_def)

lemma clear_of_runs_12_below: "t' < 11373 \<Longrightarrow> clear_of t t' fixed lower_runs_12"
  by (simp add: lower_runs_12_def)

lemma clear_of_runs_12_above: "42650 < t \<Longrightarrow> clear_of t t' fixed lower_runs_12"
  by (simp add: lower_runs_12_def)

lemma clear_of_runs_13_below: "t' < 42786 \<Longrightarrow> clear_of t t' fixed lower_runs_13"
  by (simp add: lower_runs_13_def)

lemma clear_of_runs_13_above: "42924 < t \<Longrightarrow> clear_of t t' fixed lower_runs_13"
  by (simp add: lower_runs_13_def)

lemma clear_of_runs_14_below: "t' < 42925 \<Longrightarrow> clear_of t t' fixed lower_runs_14"
  by (simp add: lower_runs_14_def)

lemma clear_of_runs_14_above: "42960 < t \<Longrightarrow> clear_of t t' fixed lower_runs_14"
  by (simp add: lower_runs_14_def)

lemma clear_of_runs_15_below: "t' < 42966 \<Longrightarrow> clear_of t t' fixed lower_runs_15"
  by (simp add: lower_runs_15_def)

lemma clear_of_runs_15_above: "93791 < t \<Longrightarrow> clear_of t t' fixed lower_runs_15"
  by (simp add: lower_runs_15_def)

lemma clear_of_runs_16_below: "t' < 125184 \<Longrightarrow> clear_of t t' fixed lower_runs_16"
  by (simp add: lower_runs_16_def)

lemma clear_of_runs_16_above: "125217 < t \<Longrightarrow> clear_of t t' fixed lower_runs_16"
  by (simp add: lower_runs_16_def)

lemmas clear_of_blocks =
  clear_of_runs_1_below clear_of_runs_1_above
  clear_of_runs_2_below clear_of_runs_2_above
  clear_of_runs_3_below clear_of_runs_3_above
  clear_of_runs_4_below clear_of_runs_4_above
  clear_of_runs_5_below clear_of_runs_5_above
  clear_of_runs_6_below clear_of_runs_6_above
  clear_of_runs_7_below clear_of_runs_7_above
  clear_of_runs_8_below clear_of_runs_8_above
  clear_of_runs_9_below clear_of_runs_9_above
  clear_of_runs_10_below clear_of_runs_10_above
  clear_of_runs_11_below clear_of_runs_11_above
  clear_of_runs_12_below clear_of_runs_12_above
  clear_of_runs_13_below clear_of_runs_13_above
  clear_of_runs_14_below clear_of_runs_14_above
  clear_of_runs_15_below clear_of_runs_15_above
  clear_of_runs_16_below clear_of_runs_16_above

text \<open>The check holds for every run of the table, block by block.\<close>

lemma lower_runs_1_ok: "list_all (run_targets_ok lower_table) lower_runs_1"
  unfolding lower_runs_1_def
  by (simp add: lower_table_def span_ok_def space_ranges_def clear_of_append clear_of_blocks;
      simp add: lower_runs_defs)

lemma lower_runs_2_ok: "list_all (run_targets_ok lower_table) lower_runs_2"
  unfolding lower_runs_2_def
  by (simp add: lower_table_def span_ok_def space_ranges_def clear_of_append clear_of_blocks;
      simp add: lower_runs_defs)

lemma lower_runs_3_ok: "list_all (run_targets_ok lower_table) lower_runs_3"
  unfolding lower_runs_3_def
  by (simp add: lower_table_def span_ok_def space_ranges_def clear_of_append clear_of_blocks;
      simp add: lower_runs_defs)

lemma lower_runs_4_ok: "list_all (run_targets_ok lower_table) lower_runs_4"
  unfolding lower_runs_4_def
  by (simp add: lower_table_def span_ok_def space_ranges_def clear_of_append clear_of_blocks;
      simp add: lower_runs_defs)

lemma lower_runs_5_ok: "list_all (run_targets_ok lower_table) lower_runs_5"
  unfolding lower_runs_5_def
  by (simp add: lower_table_def span_ok_def space_ranges_def clear_of_append clear_of_blocks;
      simp add: lower_runs_defs)

lemma lower_runs_6_ok: "list_all (run_targets_ok lower_table) lower_runs_6"
  unfolding lower_runs_6_def
  by (simp add: lower_table_def span_ok_def space_ranges_def clear_of_append clear_of_blocks;
      simp add: lower_runs_defs)

lemma lower_runs_7_ok: "list_all (run_targets_ok lower_table) lower_runs_7"
  unfolding lower_runs_7_def
  by (simp add: lower_table_def span_ok_def space_ranges_def clear_of_append clear_of_blocks;
      simp add: lower_runs_defs)

lemma lower_runs_8_ok: "list_all (run_targets_ok lower_table) lower_runs_8"
  unfolding lower_runs_8_def
  by (simp add: lower_table_def span_ok_def space_ranges_def clear_of_append clear_of_blocks;
      simp add: lower_runs_defs)

lemma lower_runs_9_ok: "list_all (run_targets_ok lower_table) lower_runs_9"
  unfolding lower_runs_9_def
  by (simp add: lower_table_def span_ok_def space_ranges_def clear_of_append clear_of_blocks;
      simp add: lower_runs_defs)

lemma lower_runs_10_ok: "list_all (run_targets_ok lower_table) lower_runs_10"
  unfolding lower_runs_10_def
  by (simp add: lower_table_def span_ok_def space_ranges_def clear_of_append clear_of_blocks;
      simp add: lower_runs_defs)

lemma lower_runs_11_ok: "list_all (run_targets_ok lower_table) lower_runs_11"
  unfolding lower_runs_11_def
  by (simp add: lower_table_def span_ok_def space_ranges_def clear_of_append clear_of_blocks;
      simp add: lower_runs_defs)

lemma lower_runs_12_ok: "list_all (run_targets_ok lower_table) lower_runs_12"
  unfolding lower_runs_12_def
  by (simp add: lower_table_def span_ok_def space_ranges_def clear_of_append clear_of_blocks;
      simp add: lower_runs_defs)

lemma lower_runs_13_ok: "list_all (run_targets_ok lower_table) lower_runs_13"
  unfolding lower_runs_13_def
  by (simp add: lower_table_def span_ok_def space_ranges_def clear_of_append clear_of_blocks;
      simp add: lower_runs_defs)

lemma lower_runs_14_ok: "list_all (run_targets_ok lower_table) lower_runs_14"
  unfolding lower_runs_14_def
  by (simp add: lower_table_def span_ok_def space_ranges_def clear_of_append clear_of_blocks;
      simp add: lower_runs_defs)

lemma lower_runs_15_ok: "list_all (run_targets_ok lower_table) lower_runs_15"
  unfolding lower_runs_15_def
  by (simp add: lower_table_def span_ok_def space_ranges_def clear_of_append clear_of_blocks;
      simp add: lower_runs_defs)

lemma lower_runs_16_ok: "list_all (run_targets_ok lower_table) lower_runs_16"
  unfolding lower_runs_16_def
  by (simp add: lower_table_def span_ok_def space_ranges_def clear_of_append clear_of_blocks;
      simp add: lower_runs_defs)

lemma lower_table_ok: "list_all (run_targets_ok lower_table) lower_table"
  by (subst (2) lower_table_def)
    (simp add:
      lower_runs_1_ok lower_runs_2_ok lower_runs_3_ok lower_runs_4_ok
      lower_runs_5_ok lower_runs_6_ok lower_runs_7_ok lower_runs_8_ok
      lower_runs_9_ok lower_runs_10_ok lower_runs_11_ok lower_runs_12_ok
      lower_runs_13_ok lower_runs_14_ok lower_runs_15_ok lower_runs_16_ok)

text \<open>What the check means for a code point in the span of targets.\<close>

lemma find_SomeD: "find P xs = Some x \<Longrightarrow> P x \<and> x \<in> set xs"
  by (induction xs) (auto split: if_splits)

lemma clear_of_find:
  "clear_of t t' fixed tab \<Longrightarrow> t \<le> d \<Longrightarrow> d \<le> t' \<Longrightarrow> (fixed \<Longrightarrow> d mod 2 = t mod 2) \<Longrightarrow>
   find (in_run d) tab = None"
proof (induction tab)
  case Nil
  show ?case by simp
next
  case (Cons r tab)
  obtain lo hi step target where r: "r = (lo, hi, step, target)"
    by (cases r)
  from Cons.prems(1) have rest: "clear_of t t' fixed tab"
    by (simp add: r split: if_splits)
  from Cons.prems(1) have here:
    "t' < lo \<or> hi < t \<or> (fixed \<and> step = 2 \<and> t mod 2 \<noteq> lo mod 2)"
    by (simp add: r split: if_splits)
  have "\<not> in_run d (lo, hi, step, target)"
  proof
    assume "in_run d (lo, hi, step, target)"
    then have d: "lo \<le> d" "d \<le> hi" "(d - lo) mod step = 0"
      by simp_all
    from here d Cons.prems(2,3) have f: "fixed" "step = 2" "t mod 2 \<noteq> lo mod 2"
      by auto
    from f(1) have "d mod 2 = t mod 2"
      by (rule Cons.prems(4))
    with d f show False
      by presburger
  qed
  moreover from rest Cons.prems(2,3,4) have "find (in_run d) tab = None"
    by (rule Cons.IH)
  ultimately show ?case
    by (simp add: r)
qed

lemma isspace_in_ranges: "isspace c \<Longrightarrow> in_ranges c space_ranges"
  unfolding isspace_def in_ranges_def space_ranges_def
  by (elim disjE conjE; simp)

lemma ranges_missed:
  "list_all (\<lambda>(a, b). t' < a \<or> b < t) rs \<Longrightarrow> t \<le> d \<Longrightarrow> d \<le> t' \<Longrightarrow> \<not> in_ranges d rs"
  by (induction rs) (auto simp: in_ranges_def)

lemma span_ok_target:
  assumes "span_ok tab fixed t t'" and "t \<le> d" and "d \<le> t'" and "fixed \<Longrightarrow> d mod 2 = t mod 2"
  shows "find (in_run d) tab = None" and "d \<noteq> 304" and "\<not> isspace d"
proof -
  from assms(1) have c: "clear_of t t' fixed tab"
    and s: "list_all (\<lambda>(a, b). t' < a \<or> b < t) space_ranges"
    and n: "t' < 304 \<or> 304 < t"
    by (simp_all add: span_ok_def)
  from c assms(2,3,4) show "find (in_run d) tab = None"
    by (rule clear_of_find)
  from n assms(2,3) show "d \<noteq> 304"
    by auto
  from s assms(2,3) have "\<not> in_ranges d space_ranges"
    by (rule ranges_missed)
  then show "\<not> isspace d"
    by (blast dest: isspace_in_ranges)
qed

lemma even_offset: "x mod 2 = 0 \<Longrightarrow> (t + x) mod 2 = t mod (2::nat)"
  by presburger

lemma run_target:
  assumes r: "(lo, hi, step, target) \<in> set lower_table" and c: "in_run c (lo, hi, step, target)"
  shows "find (in_run (target + (c - lo))) lower_table = None"
    and "target + (c - lo) \<noteq> 304" and "\<not> isspace (target + (c - lo))"
proof -
  from lower_table_ok have "\<forall>r\<in>set lower_table. run_targets_ok lower_table r"
    by (simp only: list_all_iff)
  with r have "run_targets_ok lower_table (lo, hi, step, target)"
    by blast
  then have ok: "span_ok lower_table (step = 2 \<or> lo = hi) target (target + (hi - lo))"
    by simp
  from c have b: "lo \<le> c" "c \<le> hi" "(c - lo) mod step = 0"
    by simp_all
  have 1: "target \<le> target + (c - lo)"
    by simp
  from b have 2: "target + (c - lo) \<le> target + (hi - lo)"
    by simp
  have 3: "(target + (c - lo)) mod 2 = target mod 2" if "step = 2 \<or> lo = hi"
  proof (cases "step = 2")
    case True
    with b(3) have "(c - lo) mod 2 = 0"
      by simp
    then show ?thesis
      by (rule even_offset)
  next
    case False
    with that b(1,2) have "c - lo = 0"
      by simp
    then show ?thesis
      by simp
  qed
  from ok 1 2 3 show "find (in_run (target + (c - lo))) lower_table = None"
    by (rule span_ok_target(1))
  from ok 1 2 3 show "target + (c - lo) \<noteq> 304"
    by (rule span_ok_target(2))
  from ok 1 2 3 show "\<not> isspace (target + (c - lo))"
    by (rule span_ok_target(3))
qed

lemma sigma_mapped: "find (in_run 931) lower_table \<noteq> None"
  by (simp add: lower_table_def lower_runs_defs)

lemma tolower_full_775: "tolower_full 775 = [775]"
  by (simp add: tolower_full_def lower_table_def lower_runs_defs)

lemma tolower_full_105: "tolower_full 105 = [105]"
  by (simp add: tolower_full_def lower_table_def lower_runs_defs)

text \<open>
  Every code point of a lowercase mapping is its own lowercase mapping and is not the
  capital sigma; the mapping of a code point that is not whitespace has no whitespace.
\<close>

lemma tolower_full_fixed:
  assumes "d \<in> set (tolower_full c)"
  shows "tolower_full d = [d]" and "d \<noteq> 931" and "\<not> isspace c \<Longrightarrow> \<not> isspace d"
proof -
  have "tolower_full d = [d] \<and> d \<noteq> 931 \<and> (\<not> isspace c \<longrightarrow> \<not> isspace d)"
  proof (cases "c = 304")
    case True
    with assms have "d = 105 \<or> d = 775"
      by (simp add: tolower_full_def)
    then show ?thesis
      by (auto simp: tolower_full_105 tolower_full_775 isspace_def)
  next
    case c: False
    show ?thesis
    proof (cases "find (in_run c) lower_table")
      case None
      with c assms have "d = c"
        by (simp add: tolower_full_def)
      with None c sigma_mapped show ?thesis
        by (auto simp: tolower_full_def)
    next
      case (Some r)
      obtain lo hi step target where r: "r = (lo, hi, step, target)"
        by (cases r)
      from Some r have mem: "(lo, hi, step, target) \<in> set lower_table"
        and run: "in_run c (lo, hi, step, target)"
        by (auto dest: find_SomeD)
      from Some r c assms have d: "d = target + (c - lo)"
        by (simp add: tolower_full_def)
      from run_target [OF mem run] d sigma_mapped show ?thesis
        by (auto simp: tolower_full_def)
    qed
  qed
  then show "tolower_full d = [d]" and "d \<noteq> 931" and "\<not> isspace c \<Longrightarrow> \<not> isspace d"
    by simp_all
qed

section \<open>Evaluation\<close>

lemmas eval_strip = strip_def isspace_def

text \<open>
  The lowercase mapping on the stretches of code points the examples use: ASCII, and
  the code points from U+2CF3 to U+A63F (the Chinese characters among them) and from
  U+FF3B to U+103FF (the full-width punctuation among them), which have no mapping.
\<close>

lemma tolower_full_upper_ascii: "65 \<le> c \<Longrightarrow> c \<le> 90 \<Longrightarrow> tolower_full c = [c + 32]"
  by (simp add: tolower_full_def lower_table_def lower_runs_defs)

lemma tolower_full_low: "c < 65 \<Longrightarrow> tolower_full c = [c]"
  by (simp add: tolower_full_def lower_table_def lower_runs_defs)

lemma tolower_full_mid: "90 < c \<Longrightarrow> c < 192 \<Longrightarrow> tolower_full c = [c]"
  by (simp add: tolower_full_def lower_table_def lower_runs_defs)

lemma tolower_full_cjk: "11506 < c \<Longrightarrow> c < 42560 \<Longrightarrow> tolower_full c = [c]"
  by (simp add: tolower_full_def lower_table_def lower_runs_defs)

lemma tolower_full_fullwidth: "65338 < c \<Longrightarrow> c < 66560 \<Longrightarrow> tolower_full c = [c]"
  by (simp add: tolower_full_def lower_table_def lower_runs_defs)

lemmas eval_lower =
  lower_def tolower_full_upper_ascii tolower_full_low tolower_full_mid tolower_full_cjk
  tolower_full_fullwidth

lemmas eval_dataset = SIMULATED_DATASET_def dict_display_def

section \<open>Lookup\<close>

lemma tolower_full_not_Nil: "tolower_full c \<noteq> []"
  by (simp add: tolower_full_def split: option.split prod.split)

lemma lower_from_Nil_iff: "lower_from left s = [] \<longleftrightarrow> s = []"
  by (cases s) (simp_all add: tolower_full_not_Nil)

lemma lower_Nil_iff: "lower s = [] \<longleftrightarrow> s = []"
  by (simp add: lower_def lower_from_Nil_iff)

lemma lookup_blank:
  "strip location = [] \<Longrightarrow> lookup self location = Inl (ValueError empty_location_message)"
  by (simp add: lookup_def lower_Nil_iff)

lemma lookup_not_blank:
  "strip location \<noteq> [] \<Longrightarrow>
   lookup self location =
     Inr (case map_of (data self) (lower (strip location)) of
            Some text \<Rightarrow> text
          | None \<Rightarrow> location @ fallback_suffix)"
  by (simp add: lookup_def lower_Nil_iff split: option.split)

text \<open>
  Claim C3. For every dataset and every input, \<open>lookup\<close> raises if and only if the input
  is empty once its leading and trailing whitespace is removed, and what it raises then
  is the \<^verbatim>\<open>ValueError\<close> of the empty location; every other input gives a string,
  whether or not the table knows the location.
\<close>

theorem lookup_raises_iff_blank:
  "((\<exists>e. lookup self location = Inl e) \<longleftrightarrow> strip location = []) \<and>
   (strip location = [] \<longrightarrow> lookup self location = Inl (ValueError empty_location_message)) \<and>
   (strip location \<noteq> [] \<longrightarrow> (\<exists>text. lookup self location = Inr text))"
proof (cases "strip location = []")
  case True
  then show ?thesis by (simp add: lookup_blank)
next
  case False
  then show ?thesis by (simp add: lookup_not_blank)
qed

theorem lookup_raises_iff_blank_witness:
  "strip [32, 12288] = [] \<and>
   lookup SIMULATED_DATASET [32, 12288] = Inl (ValueError empty_location_message) \<and>
   strip [32, 88] \<noteq> [] \<and> (\<exists>text. lookup SIMULATED_DATASET [32, 88] = Inr text)"
  using lookup_raises_iff_blank [of SIMULATED_DATASET "[32, 12288]"]
    lookup_raises_iff_blank [of SIMULATED_DATASET "[32, 88]"]
  by (simp add: eval_strip)

text \<open>
  Claim C5, as stated, at a table that has the empty string among its keys: the input
  of one space normalises to that key, and \<open>lookup\<close> raises instead of returning the
  entry, since the check for an empty key comes before the table is read.
\<close>

theorem lookup_empty_key_counterexample:
  "map_of (data \<lparr>data = dict_display [([], ascii ''nowhere'')]\<rparr>) (lower (strip [32]))
     = Some (ascii ''nowhere'') \<and>
   lookup \<lparr>data = dict_display [([], ascii ''nowhere'')]\<rparr> [32]
     = Inl (ValueError empty_location_message)"
  by (simp add: lookup_def dict_display_def eval_strip lower_def)

text \<open>
  Claim C5, amended. For every input whose trimmed, lowercased form is not empty and is
  a key of the table, \<open>lookup\<close> returns the text stored under that key, unchanged.
\<close>

theorem lookup_known_key:
  "lower (strip location) \<noteq> [] \<Longrightarrow>
   map_of (data self) (lower (strip location)) = Some text \<Longrightarrow>
   lookup self location = Inr text"
  by (simp add: lookup_def)

text \<open>The witness reads Beijing between a space and a tabulator.\<close>

theorem lookup_known_key_witness:
  "lower (strip [32, 21271, 20140, 9]) \<noteq> [] \<and>
   map_of (data SIMULATED_DATASET) (lower (strip [32, 21271, 20140, 9]))
     = Some [21271, 20140, 65306, 22810, 20113, 65292, 50, 50, 176, 67, 65292, 19996, 21271,
         39118, 32, 51, 32, 32423] \<and>
   lookup SIMULATED_DATASET [32, 21271, 20140, 9]
     = Inr [21271, 20140, 65306, 22810, 20113, 65292, 50, 50, 176, 67, 65292, 19996, 21271,
         39118, 32, 51, 32, 32423]"
proof -
  have key: "lower (strip [32, 21271, 20140, 9]) = [21271, 20140]"
    by (simp add: eval_strip eval_lower)
  have entry: "map_of (data SIMULATED_DATASET) [21271, 20140]
     = Some [21271, 20140, 65306, 22810, 20113, 65292, 50, 50, 176, 67, 65292, 19996, 21271,
         39118, 32, 51, 32, 32423]"
    by (simp add: eval_dataset)
  from key entry lookup_known_key [of "[32, 21271, 20140, 9]" SIMULATED_DATASET]
  show ?thesis by simp
qed

text \<open>
  Claim C1, as stated, at the input space, X, space and the empty table: the key is not
  empty and not in the table, and the text returned starts with the space of the input,
  so it does not start with the trimmed location.
\<close>

theorem lookup_fallback_trimmed_counterexample:
  "lower (strip [32, 88, 32]) \<noteq> [] \<and>
   map_of (data \<lparr>data = []\<rparr>) (lower (strip [32, 88, 32])) = None \<and>
   lookup \<lparr>data = []\<rparr> [32, 88, 32] = Inr ([32, 88, 32] @ fallback_suffix) \<and>
   \<not> prefix (strip [32, 88, 32]) ([32, 88, 32] @ fallback_suffix)"
  by (simp add: lookup_def eval_strip eval_lower)

text \<open>
  Claim C1, amended. For every input whose trimmed, lowercased form is not empty and is
  not a key of the table, \<open>lookup\<close> returns the location as it was passed, whitespace
  included, followed by the fixed suffix: the full-width colon and the default
  description.
\<close>

theorem lookup_fallback_text:
  "lower (strip location) \<noteq> [] \<Longrightarrow>
   map_of (data self) (lower (strip location)) = None \<Longrightarrow>
   lookup self location = Inr (location @ fallback_suffix)"
  by (simp add: lookup_def)

text \<open>The witness reads Paris with a trailing space.\<close>

theorem lookup_fallback_text_witness:
  "lower (strip (ascii ''Paris '')) \<noteq> [] \<and>
   map_of (data SIMULATED_DATASET) (lower (strip (ascii ''Paris ''))) = None \<and>
   lookup SIMULATED_DATASET (ascii ''Paris '') = Inr (ascii ''Paris '' @ fallback_suffix)"
proof -
  have key: "lower (strip (ascii ''Paris '')) = ascii ''paris''"
    by (simp add: ascii_def eval_strip eval_lower)
  have absent: "map_of (data SIMULATED_DATASET) (ascii ''paris'') = None"
    by (simp add: ascii_def eval_dataset)
  from key absent lookup_fallback_text [of "ascii ''Paris ''" SIMULATED_DATASET]
  show ?thesis by (simp add: ascii_def)
qed

text \<open>
  Claim C6. For every input that is not empty after trimming and whose key is not in
  the table, \<open>lookup\<close> returns the input followed by the fixed suffix, a text that has the
  input as a prefix; so it does for every such input on the empty table, and
  \<^verbatim>\<open>WeatherDataset({}).lookup("X")\<close> is the fallback text, not an error.
\<close>

theorem lookup_unknown_location:
  "(strip s \<noteq> [] \<and> map_of (data self) (lower (strip s)) = None \<longrightarrow>
      (\<exists>text. lookup self s = Inr text \<and> text = s @ fallback_suffix \<and> prefix s text)) \<and>
   (strip s \<noteq> [] \<longrightarrow> lookup \<lparr>data = dict_display []\<rparr> s = Inr (s @ fallback_suffix)) \<and>
   lookup \<lparr>data = dict_display []\<rparr> (ascii ''X'') = Inr (ascii ''X'' @ fallback_suffix)"
proof -
  have "strip (ascii ''X'') \<noteq> []"
    by (simp add: ascii_def eval_strip)
  then show ?thesis
    by (simp add: lookup_not_blank dict_display_def)
qed

text \<open>The witness is the unknown city of the repository's test (six Chinese characters).\<close>

theorem lookup_unknown_location_witness:
  "strip [19981, 23384, 22312, 30340, 22478, 24066] \<noteq> [] \<and>
   map_of (data SIMULATED_DATASET) (lower (strip [19981, 23384, 22312, 30340, 22478, 24066]))
     = None \<and>
   lookup SIMULATED_DATASET [19981, 23384, 22312, 30340, 22478, 24066]
     = Inr ([19981, 23384, 22312, 30340, 22478, 24066] @ fallback_suffix) \<and>
   prefix [19981, 23384, 22312, 30340, 22478, 24066]
     ([19981, 23384, 22312, 30340, 22478, 24066] @ fallback_suffix)"
proof -
  have key: "lower (strip [19981, 23384, 22312, 30340, 22478, 24066])
      = [19981, 23384, 22312, 30340, 22478, 24066]"
    by (simp add: eval_strip eval_lower)
  have absent: "map_of (data SIMULATED_DATASET) [19981, 23384, 22312, 30340, 22478, 24066] = None"
    by (simp add: eval_dataset)
  have "strip [19981, 23384, 22312, 30340, 22478, 24066] \<noteq> []"
    by (simp add: eval_strip)
  with key absent
    lookup_unknown_location [of "[19981, 23384, 22312, 30340, 22478, 24066]" SIMULATED_DATASET]
  show ?thesis by simp
qed

section \<open>The resolver\<close>

lemma lookup_raises_only_ValueError:
  "lookup self location = Inl e \<Longrightarrow> e = ValueError empty_location_message"
  by (simp add: lookup_def Let_def split: if_splits option.splits)

text \<open>How the body of the \<^verbatim>\<open>try\<close> ends when one of its steps raises.\<close>

lemma remote_answer_client_raises:
  "runtime_client OpenAI client = Inl e \<Longrightarrow> remote_answer OpenAI location client = Inl e"
  by (simp add: remote_answer_def)

lemma remote_answer_create_raises:
  "runtime_client OpenAI client = Inr c \<Longrightarrow> agents_create c agent_payload = Inl e \<Longrightarrow>
   remote_answer OpenAI location client = Inl e"
  by (simp add: remote_answer_def)

lemma remote_answer_stream_raises:
  "runtime_client OpenAI client = Inr c \<Longrightarrow> agents_create c agent_payload = Inr a \<Longrightarrow>
   responses_stream c (agent_id a) [\<lparr>role = ascii ''user'', content = location\<rparr>] = Inl e \<Longrightarrow>
   remote_answer OpenAI location client = Inl e"
  by (simp add: remote_answer_def)

lemma remote_answer_with_stream:
  "runtime_client OpenAI client = Inr c \<Longrightarrow> agents_create c agent_payload = Inr a \<Longrightarrow>
   responses_stream c (agent_id a) [\<lparr>role = ascii ''user'', content = location\<rparr>] = Inr ctx \<Longrightarrow>
   remote_answer OpenAI location client = with_stream ctx"
  by (simp add: remote_answer_def)

lemma with_stream_block_raises:
  "until_done tool_resolver (events ctx) = Inl e \<Longrightarrow> cm_exit ctx (Some e) = Inr suppressed \<Longrightarrow>
   with_stream ctx = Inl (if suppressed then final_response_unbound else e)"
  by (simp add: with_stream_def)

lemma with_stream_exit_raises:
  "until_done tool_resolver (events ctx) = Inl e \<Longrightarrow> cm_exit ctx (Some e) = Inl e' \<Longrightarrow>
   with_stream ctx = Inl e'"
  by (simp add: with_stream_def)

lemma is_Exception_final_response_unbound: "is_Exception final_response_unbound"
  by (simp add: final_response_unbound_def)

lemma query_weather_caught:
  "remote_answer OpenAI location client = Inl e \<Longrightarrow> is_Exception e \<Longrightarrow>
   query_weather OpenAI location client = lookup SIMULATED_DATASET location"
  by (simp add: query_weather_def)

lemma query_weather_not_caught:
  "remote_answer OpenAI location client = Inl e \<Longrightarrow> \<not> is_Exception e \<Longrightarrow>
   query_weather OpenAI location client = Inl e"
  by (simp add: query_weather_def)

text \<open>
  Claim C2, as stated, at a client whose request is interrupted while the agent is
  created: the remote path raises \<^verbatim>\<open>KeyboardInterrupt\<close>, which is not an
  \<^verbatim>\<open>Exception\<close>, so \<open>query_weather\<close> raises it too, where \<open>lookup\<close> on the same location
  returns the fallback text.
\<close>

theorem query_weather_interrupt_counterexample:
  "agents_create interrupted_client agent_payload = Inl KeyboardInterrupt \<and>
   remote_answer OpenAI_stub (ascii ''X'') (Some interrupted_client) = Inl KeyboardInterrupt \<and>
   query_weather OpenAI_stub (ascii ''X'') (Some interrupted_client) = Inl KeyboardInterrupt \<and>
   lookup SIMULATED_DATASET (ascii ''X'') = Inr (ascii ''X'' @ fallback_suffix)"
proof -
  have c: "agents_create interrupted_client agent_payload = Inl KeyboardInterrupt"
    by (simp add: interrupted_client_def)
  have "runtime_client OpenAI_stub (Some interrupted_client) = Inr interrupted_client"
    by (simp add: runtime_client_def interrupted_client_def)
  from this c
  have r: "remote_answer OpenAI_stub (ascii ''X'') (Some interrupted_client) = Inl KeyboardInterrupt"
    by (rule remote_answer_create_raises)
  then have q: "query_weather OpenAI_stub (ascii ''X'') (Some interrupted_client) = Inl KeyboardInterrupt"
    by (simp add: query_weather_def)
  have l: "lookup SIMULATED_DATASET (ascii ''X'') = Inr (ascii ''X'' @ fallback_suffix)"
    by (simp add: lookup_def ascii_def eval_strip eval_lower eval_dataset)
  from c r q l show ?thesis
    by blast
qed

text \<open>
  Claim C2, amended. A client handle cannot complete the remote protocol when the body
  of the \<^verbatim>\<open>try\<close> ends by raising an exception \<open>e\<close>: obtaining the runtime, creating the
  agent or opening the stream raises \<open>e\<close>, or \<open>e\<close> is raised while the stream is driven
  (by the runtime, or by the resolution of a tool call whose exception the runtime
  does not catch) and leaves the \<^verbatim>\<open>with\<close> block, \<^verbatim>\<open>__exit__\<close> returning false. For every
  location, environment and client handle where the body ends so, \<open>query_weather\<close> gives
  exactly what \<open>lookup\<close> on the default dataset gives for the location (its text or its
  \<^verbatim>\<open>ValueError\<close>) and does not pass \<open>e\<close> on, if \<open>e\<close> is an instance of \<^verbatim>\<open>Exception\<close>; if
  \<open>e\<close> is not (\<^verbatim>\<open>KeyboardInterrupt\<close>, \<^verbatim>\<open>SystemExit\<close>), \<open>query_weather\<close> raises \<open>e\<close>.
\<close>

theorem query_weather_fallback:
  "(remote_answer OpenAI location client = Inl e \<and> is_Exception e \<longrightarrow>
      query_weather OpenAI location client = lookup SIMULATED_DATASET location) \<and>
   (remote_answer OpenAI location client = Inl e \<and> \<not> is_Exception e \<longrightarrow>
      query_weather OpenAI location client = Inl e) \<and>
   (runtime_client OpenAI client = Inl e \<longrightarrow> remote_answer OpenAI location client = Inl e) \<and>
   (runtime_client OpenAI client = Inr c \<and> agents_create c agent_payload = Inl e \<longrightarrow>
      remote_answer OpenAI location client = Inl e) \<and>
   (runtime_client OpenAI client = Inr c \<and> agents_create c agent_payload = Inr a \<and>
    responses_stream c (agent_id a) [\<lparr>role = ascii ''user'', content = location\<rparr>] = Inl e \<longrightarrow>
      remote_answer OpenAI location client = Inl e) \<and>
   (runtime_client OpenAI client = Inr c \<and> agents_create c agent_payload = Inr a \<and>
    responses_stream c (agent_id a) [\<lparr>role = ascii ''user'', content = location\<rparr>] = Inr ctx \<and>
    until_done tool_resolver (events ctx) = Inl e \<and> cm_exit ctx (Some e) = Inr False \<longrightarrow>
      remote_answer OpenAI location client = Inl e)"
proof (intro conjI impI)
  assume "remote_answer OpenAI location client = Inl e \<and> is_Exception e"
  then show "query_weather OpenAI location client = lookup SIMULATED_DATASET location"
    by (simp add: query_weather_caught)
next
  assume "remote_answer OpenAI location client = Inl e \<and> \<not> is_Exception e"
  then show "query_weather OpenAI location client = Inl e"
    by (simp add: query_weather_not_caught)
next
  assume "runtime_client OpenAI client = Inl e"
  then show "remote_answer OpenAI location client = Inl e"
    by (rule remote_answer_client_raises)
next
  assume "runtime_client OpenAI client = Inr c \<and> agents_create c agent_payload = Inl e"
  then show "remote_answer OpenAI location client = Inl e"
    by (simp add: remote_answer_create_raises)
next
  assume "runtime_client OpenAI client = Inr c \<and> agents_create c agent_payload = Inr a \<and>
    responses_stream c (agent_id a) [\<lparr>role = ascii ''user'', content = location\<rparr>] = Inl e"
  then show "remote_answer OpenAI location client = Inl e"
    by (simp add: remote_answer_stream_raises)
next
  assume a: "runtime_client OpenAI client = Inr c \<and> agents_create c agent_payload = Inr a \<and>
    responses_stream c (agent_id a) [\<lparr>role = ascii ''user'', content = location\<rparr>] = Inr ctx \<and>
    until_done tool_resolver (events ctx) = Inl e \<and> cm_exit ctx (Some e) = Inr False"
  then have "remote_answer OpenAI location client = with_stream ctx"
    by (simp add: remote_answer_with_stream)
  moreover from a have "with_stream ctx = Inl e"
    by (simp add: with_stream_def)
  ultimately show "remote_answer OpenAI location client = Inl e"
    by simp
qed

text \<open>The witness is the repository's test: Shenzhen, asked of the client without attributes.\<close>

theorem query_weather_fallback_witness:
  "runtime_client OpenAI_stub (Some DummyClient) = Inr DummyClient \<and>
   agents_create DummyClient agent_payload = Inl (AttributeError (ascii ''agents'')) \<and>
   remote_answer OpenAI_stub [28145, 22323] (Some DummyClient)
     = Inl (AttributeError (ascii ''agents'')) \<and>
   is_Exception (AttributeError (ascii ''agents'')) \<and>
   query_weather OpenAI_stub [28145, 22323] (Some DummyClient)
     = lookup SIMULATED_DATASET [28145, 22323] \<and>
   lookup SIMULATED_DATASET [28145, 22323]
     = Inr [28145, 22323, 65306, 38452, 65292, 50, 57, 176, 67, 65292, 28287, 24230, 32, 55,
         48, 37]"
proof -
  note t = query_weather_fallback [of OpenAI_stub "[28145, 22323]" "Some DummyClient"
      "AttributeError (ascii ''agents'')" DummyClient]
  have c: "runtime_client OpenAI_stub (Some DummyClient) = Inr DummyClient"
    by (simp add: runtime_client_def DummyClient_def)
  have a: "agents_create DummyClient agent_payload = Inl (AttributeError (ascii ''agents''))"
    by (simp add: DummyClient_def)
  from t c a
  have r: "remote_answer OpenAI_stub [28145, 22323] (Some DummyClient)
      = Inl (AttributeError (ascii ''agents''))"
    by blast
  have x: "is_Exception (AttributeError (ascii ''agents''))"
    by simp
  from t r x
  have q: "query_weather OpenAI_stub [28145, 22323] (Some DummyClient)
      = lookup SIMULATED_DATASET [28145, 22323]"
    by blast
  have l: "lookup SIMULATED_DATASET [28145, 22323]
      = Inr [28145, 22323, 65306, 38452, 65292, 50, 57, 176, 67, 65292, 28287, 24230, 32, 55,
          48, 37]"
    by (simp add: lookup_def eval_strip eval_lower eval_dataset)
  from c a r x q l show ?thesis
    by blast
qed

text \<open>
  Claim C4, as stated, where the SDK is missing in another way: the constructor leaves
  through \<^verbatim>\<open>SystemExit\<close>. The location is blank, \<open>lookup\<close> raises the
  \<^verbatim>\<open>ValueError\<close>, and \<open>query_weather\<close> raises \<^verbatim>\<open>SystemExit\<close>: a second condition
  that reaches the caller.
\<close>

theorem query_weather_exit_counterexample:
  "strip [32] = [] \<and>
   lookup SIMULATED_DATASET [32] = Inl (ValueError empty_location_message) \<and>
   remote_answer (Inl SystemExit) [32] None = Inl SystemExit \<and>
   query_weather (Inl SystemExit) [32] None = Inl SystemExit"
  by (simp add: query_weather_def remote_answer_def runtime_client_def lookup_def eval_strip
      lower_def)

text \<open>
  Claim C4, amended. For every string that is empty after trimming, \<open>lookup\<close> raises the
  \<^verbatim>\<open>ValueError\<close> of the empty location, and \<open>query_weather\<close>, when the body of its
  \<^verbatim>\<open>try\<close> ends with an instance of \<^verbatim>\<open>Exception\<close> (no working remote handle), raises the
  identical error. This is the only instance of \<^verbatim>\<open>Exception\<close> that \<open>query_weather\<close> ever
  raises, and it raises it for such strings only; whatever else it raises is an
  exception outside \<^verbatim>\<open>Exception\<close> with which the body of the \<^verbatim>\<open>try\<close> ended.
\<close>

theorem query_weather_errors:
  "(strip s = [] \<longrightarrow> lookup self s = Inl (ValueError empty_location_message)) \<and>
   (strip s = [] \<and> remote_answer OpenAI s client = Inl e \<and> is_Exception e \<longrightarrow>
      query_weather OpenAI s client = Inl (ValueError empty_location_message)) \<and>
   (query_weather OpenAI s client = Inl e' \<and> is_Exception e' \<longrightarrow>
      e' = ValueError empty_location_message \<and> strip s = []) \<and>
   (query_weather OpenAI s client = Inl e' \<and> \<not> is_Exception e' \<longrightarrow>
      remote_answer OpenAI s client = Inl e')"
proof (intro conjI impI)
  assume "strip s = []"
  then show "lookup self s = Inl (ValueError empty_location_message)"
    by (rule lookup_blank)
next
  assume "strip s = [] \<and> remote_answer OpenAI s client = Inl e \<and> is_Exception e"
  then show "query_weather OpenAI s client = Inl (ValueError empty_location_message)"
    by (simp add: query_weather_def lookup_blank)
next
  assume a: "query_weather OpenAI s client = Inl e' \<and> is_Exception e'"
  then have "lookup SIMULATED_DATASET s = Inl e'"
    by (auto simp: query_weather_def split: sum.splits if_splits)
  then show "e' = ValueError empty_location_message"
    by (rule lookup_raises_only_ValueError)
next
  assume a: "query_weather OpenAI s client = Inl e' \<and> is_Exception e'"
  then have l: "lookup SIMULATED_DATASET s = Inl e'"
    by (auto simp: query_weather_def split: sum.splits if_splits)
  show "strip s = []"
  proof (rule ccontr)
    assume "strip s \<noteq> []"
    with l show False
      by (simp add: lookup_not_blank)
  qed
next
  assume a: "query_weather OpenAI s client = Inl e' \<and> \<not> is_Exception e'"
  show "remote_answer OpenAI s client = Inl e'"
  proof (cases "remote_answer OpenAI s client")
    case (Inr answer)
    with a show ?thesis
      by (simp add: query_weather_def)
  next
    case (Inl e)
    show ?thesis
    proof (cases "is_Exception e")
      case True
      with Inl a have "lookup SIMULATED_DATASET s = Inl e'"
        by (simp add: query_weather_def)
      then have "e' = ValueError empty_location_message"
        by (rule lookup_raises_only_ValueError)
      with a show ?thesis
        by simp
    next
      case False
      with Inl a show ?thesis
        by (simp add: query_weather_def)
    qed
  qed
qed

text \<open>The witness asks for a tabulator and a space where the SDK is not installed.\<close>

theorem query_weather_errors_witness:
  "strip [9, 32] = [] \<and>
   lookup SIMULATED_DATASET [9, 32] = Inl (ValueError empty_location_message) \<and>
   remote_answer OpenAI_stub [9, 32] None = Inl (RuntimeError sdk_missing_message) \<and>
   is_Exception (RuntimeError sdk_missing_message) \<and>
   query_weather OpenAI_stub [9, 32] None = Inl (ValueError empty_location_message) \<and>
   is_Exception (ValueError empty_location_message)"
proof -
  have b: "strip [9, 32] = []"
    by (simp add: eval_strip)
  have r: "remote_answer OpenAI_stub [9, 32] None = Inl (RuntimeError sdk_missing_message)"
    by (simp add: remote_answer_def runtime_client_def OpenAI_stub_def)
  have x: "is_Exception (RuntimeError sdk_missing_message)"
    by simp
  note t = query_weather_errors [of "[9, 32]" SIMULATED_DATASET OpenAI_stub None
      "RuntimeError sdk_missing_message" "ValueError empty_location_message"]
  from t b have l: "lookup SIMULATED_DATASET [9, 32] = Inl (ValueError empty_location_message)"
    by blast
  from t b r x
  have q: "query_weather OpenAI_stub [9, 32] None = Inl (ValueError empty_location_message)"
    by blast
  have y: "is_Exception (ValueError empty_location_message)"
    by simp
  from b l r x q y show ?thesis
    by blast
qed

text \<open>
  Claim C10, as stated, at a runtime that asks for a tool call without a location and
  catches what the callback raises: the callback raises the \<^verbatim>\<open>ValueError\<close>, the handler
  of \<open>query_weather\<close> never sees it, and the result is the runtime's own answer, not the
  fallback text of \<open>lookup\<close>.
\<close>

theorem resolve_weather_tool_caught_counterexample:
  "arguments (one_call Map.empty) (ascii ''location'') = None \<and>
   tool_resolver (one_call Map.empty) = Inl (ValueError empty_location_message) \<and>
   query_weather OpenAI_stub (ascii ''X'') (Some (one_call_client catching_runtime Map.empty))
     = Inr (ascii ''recovered'') \<and>
   lookup SIMULATED_DATASET (ascii ''X'') = Inr (ascii ''X'' @ fallback_suffix)"
proof -
  have e: "strip [] = []"
    by (simp add: strip_def)
  have t: "tool_resolver (one_call Map.empty) = Inl (ValueError empty_location_message)"
    by (simp add: tool_resolver_def resolve_weather_tool_def one_call_def lookup_blank e)
  then have "with_stream (one_call_context catching_runtime Map.empty)
      = Inr (strip (ascii ''recovered''))"
    by (simp add: with_stream_def one_call_context_def catching_runtime_def)
  moreover have "strip (ascii ''recovered'') = ascii ''recovered''"
    by (simp add: ascii_def eval_strip)
  ultimately
  have q: "query_weather OpenAI_stub (ascii ''X'') (Some (one_call_client catching_runtime Map.empty))
      = Inr (ascii ''recovered'')"
    by (simp add: query_weather_def remote_answer_def runtime_client_def one_call_client_def)
  have l: "lookup SIMULATED_DATASET (ascii ''X'') = Inr (ascii ''X'' @ fallback_suffix)"
    by (simp add: lookup_def ascii_def eval_strip eval_lower eval_dataset)
  have a: "arguments (one_call Map.empty) (ascii ''location'') = None"
    by (simp add: one_call_def)
  from a t q l show ?thesis
    by blast
qed

text \<open>
  Claim C10, amended. \<open>resolve_weather_tool\<close> raises the \<^verbatim>\<open>ValueError\<close> whenever its
  arguments have no entry for "location" or have one whose string form is empty or
  only whitespace, and so does the callback \<open>tool_resolver\<close> for a tool call with such
  arguments. Inside \<open>query_weather\<close>, when that exception leaves
  \<^verbatim>\<open>stream.until_done()\<close> (the runtime does not catch it, as a runtime does that goes
  on by raising what the callback raised) and \<^verbatim>\<open>__exit__\<close> returns, the handler catches
  it, or the \<^verbatim>\<open>UnboundLocalError\<close> that follows when \<^verbatim>\<open>__exit__\<close> suppressed it, and the
  result is that of \<open>lookup\<close> on the location asked for.
\<close>

theorem resolve_weather_tool_blank:
  "((case args (ascii ''location'') of
       None \<Rightarrow> True
     | Some v \<Rightarrow> (\<exists>text. py_str v = Inr text \<and> strip text = [])) \<longrightarrow>
      resolve_weather_tool args = Inl (ValueError empty_location_message)) \<and>
   ((case arguments tc (ascii ''location'') of
       None \<Rightarrow> True
     | Some v \<Rightarrow> (\<exists>text. py_str v = Inr text \<and> strip text = [])) \<longrightarrow>
      tool_resolver tc = Inl (ValueError empty_location_message)) \<and>
   (tool_resolver tc = Inl (ValueError empty_location_message) \<and>
    continue (Inl (ValueError empty_location_message)) = Raises (ValueError empty_location_message) \<longrightarrow>
      until_done tool_resolver (ToolCall tc continue) = Inl (ValueError empty_location_message)) \<and>
   (runtime_client OpenAI client = Inr c \<and> agents_create c agent_payload = Inr a \<and>
    responses_stream c (agent_id a) [\<lparr>role = ascii ''user'', content = location\<rparr>] = Inr ctx \<and>
    until_done tool_resolver (events ctx) = Inl (ValueError empty_location_message) \<and>
    cm_exit ctx (Some (ValueError empty_location_message)) = Inr suppressed \<longrightarrow>
      query_weather OpenAI location client = lookup SIMULATED_DATASET location)"
proof -
  have raises: "resolve_weather_tool m = Inl (ValueError empty_location_message)"
    if "case m (ascii ''location'') of
          None \<Rightarrow> True
        | Some v \<Rightarrow> (\<exists>text. py_str v = Inr text \<and> strip text = [])"
    for m
  proof (cases "m (ascii ''location'')")
    case None
    have "strip [] = []"
      by (simp add: strip_def)
    with None show ?thesis
      by (simp add: resolve_weather_tool_def lookup_blank)
  next
    case (Some v)
    with that obtain t where "py_str v = Inr t" and "strip t = []"
      by auto
    with Some show ?thesis
      by (simp add: resolve_weather_tool_def lookup_blank)
  qed
  have callback: "tool_resolver tc = Inl (ValueError empty_location_message)"
    if "case arguments tc (ascii ''location'') of
          None \<Rightarrow> True
        | Some v \<Rightarrow> (\<exists>text. py_str v = Inr text \<and> strip text = [])"
    using that by (simp add: tool_resolver_def raises)
  have passes:
    "until_done tool_resolver (ToolCall tc continue) = Inl (ValueError empty_location_message)"
    if "tool_resolver tc = Inl (ValueError empty_location_message)"
      and "continue (Inl (ValueError empty_location_message))
        = Raises (ValueError empty_location_message)"
    using that by simp
  have caught: "query_weather OpenAI location client = lookup SIMULATED_DATASET location"
    if rc: "runtime_client OpenAI client = Inr c"
      and cr: "agents_create c agent_payload = Inr a"
      and st: "responses_stream c (agent_id a) [\<lparr>role = ascii ''user'', content = location\<rparr>]
        = Inr ctx"
      and ud: "until_done tool_resolver (events ctx) = Inl (ValueError empty_location_message)"
      and ex: "cm_exit ctx (Some (ValueError empty_location_message)) = Inr suppressed"
  proof -
    from rc cr st have "remote_answer OpenAI location client = with_stream ctx"
      by (rule remote_answer_with_stream)
    also from ud ex have "with_stream ctx
        = Inl (if suppressed then final_response_unbound else ValueError empty_location_message)"
      by (rule with_stream_block_raises)
    finally show ?thesis
      by (rule query_weather_caught) (simp add: is_Exception_final_response_unbound)
  qed
  from raises callback passes caught show ?thesis
    by blast
qed

text \<open>
  The witness: arguments whose location is a space and a tabulator, and a runtime that
  asks for one tool call without a location and lets the exception pass, while the user
  asked for Shanghai.
\<close>

theorem resolve_weather_tool_blank_witness:
  "resolve_weather_tool [ascii ''location'' \<mapsto> PyStr [32, 9]]
     = Inl (ValueError empty_location_message) \<and>
   tool_resolver (one_call Map.empty) = Inl (ValueError empty_location_message) \<and>
   until_done tool_resolver (ToolCall (one_call Map.empty) passing_runtime)
     = Inl (ValueError empty_location_message) \<and>
   query_weather OpenAI_stub [19978, 28023] (Some (one_call_client passing_runtime Map.empty))
     = lookup SIMULATED_DATASET [19978, 28023]"
proof -
  have b: "strip [32, 9] = []"
    by (simp add: eval_strip)
  have 1: "resolve_weather_tool [ascii ''location'' \<mapsto> PyStr [32, 9]]
      = Inl (ValueError empty_location_message)"
    using b resolve_weather_tool_blank [of "[ascii ''location'' \<mapsto> PyStr [32, 9]]"]
    by simp
  note t = resolve_weather_tool_blank [of Map.empty "one_call Map.empty" passing_runtime
      OpenAI_stub "Some (one_call_client passing_runtime Map.empty)"
      "one_call_client passing_runtime Map.empty" "\<lparr>agent_id = ascii ''agent_1''\<rparr>"
      "[19978, 28023]" "one_call_context passing_runtime Map.empty" False]
  have a: "arguments (one_call Map.empty) (ascii ''location'') = None"
    by (simp add: one_call_def)
  from t a have 2: "tool_resolver (one_call Map.empty) = Inl (ValueError empty_location_message)"
    by simp
  have p: "passing_runtime (Inl (ValueError empty_location_message))
      = Raises (ValueError empty_location_message)"
    by (simp add: passing_runtime_def)
  from t 2 p
  have 3: "until_done tool_resolver (ToolCall (one_call Map.empty) passing_runtime)
      = Inl (ValueError empty_location_message)"
    by blast
  have rc: "runtime_client OpenAI_stub (Some (one_call_client passing_runtime Map.empty))
      = Inr (one_call_client passing_runtime Map.empty)"
    by (simp add: runtime_client_def one_call_client_def)
  have cr: "agents_create (one_call_client passing_runtime Map.empty) agent_payload
      = Inr \<lparr>agent_id = ascii ''agent_1''\<rparr>"
    by (simp add: one_call_client_def)
  have st: "responses_stream (one_call_client passing_runtime Map.empty)
      (agent_id \<lparr>agent_id = ascii ''agent_1''\<rparr>)
      [\<lparr>role = ascii ''user'', content = [19978, 28023]\<rparr>]
      = Inr (one_call_context passing_runtime Map.empty)"
    by (simp add: one_call_client_def)
  have ev: "events (one_call_context passing_runtime Map.empty)
      = ToolCall (one_call Map.empty) passing_runtime"
    by (simp add: one_call_context_def)
  have ex: "cm_exit (one_call_context passing_runtime Map.empty)
      (Some (ValueError empty_location_message)) = Inr False"
    by (simp add: one_call_context_def)
  from 3 ev have ud: "until_done tool_resolver (events (one_call_context passing_runtime Map.empty))
      = Inl (ValueError empty_location_message)"
    by simp
  from t rc cr st ud ex
  have 4: "query_weather OpenAI_stub [19978, 28023]
      (Some (one_call_client passing_runtime Map.empty)) = lookup SIMULATED_DATASET [19978, 28023]"
    by blast
  from 1 2 3 4 show ?thesis
    by blast
qed

section \<open>The dict and the available locations\<close>



lemma map_of_dict_setitem: "map_of (dict_setitem d k v) = (map_of d)(k \<mapsto> v)"
  by (induction d) (auto simp: fun_eq_iff)







text \<open>
  Claim C8. With the store written out, a call of \<open>lookup\<close> leaves the store as it found
  it, so the dict of the dataset is not changed; its result, text or error, is that of
  \<open>lookup\<close> on the table the store holds for the dataset, so it is a function of that
  table and the input alone: two stores that hold the same table give the same result,
  and a second call with the same input, made on the store the first call left, gives
  the same result as the first.
\<close>

theorem lookup_in_store_pure:
  "snd (lookup_in_store r s \<sigma>) = \<sigma> \<and>
   fst (lookup_in_store r s \<sigma>) = lookup \<lparr>data = \<sigma> r\<rparr> s \<and>
   (\<sigma> r = \<sigma>' r' \<longrightarrow> fst (lookup_in_store r s \<sigma>) = fst (lookup_in_store r' s \<sigma>')) \<and>
   fst (lookup_in_store r s (snd (lookup_in_store r s \<sigma>))) = fst (lookup_in_store r s \<sigma>)"
proof -
  have unchanged: "snd (lookup_in_store r s \<sigma>) = \<sigma>" for r s \<sigma>
    by (simp add: lookup_in_store_def dict_contains_def dict_getitem_def Let_def
        split: option.split)
  have result: "fst (lookup_in_store r s \<sigma>) = lookup \<lparr>data = \<sigma> r\<rparr> s" for r s \<sigma>
    by (simp add: lookup_in_store_def lookup_def dict_contains_def dict_getitem_def Let_def
        split: option.split)
  from unchanged result show ?thesis
    by simp
qed

text \<open>
  The witness: two stores that hold the same two entries under different references;
  the input is an A with a trailing space.
\<close>

theorem lookup_in_store_pure_witness:
  "store_with 1 example_table 1 = store_with 2 example_table 2 \<and>
   fst (lookup_in_store 1 (ascii ''A '') (store_with 1 example_table))
     = fst (lookup_in_store 2 (ascii ''A '') (store_with 2 example_table)) \<and>
   fst (lookup_in_store 1 (ascii ''A '') (store_with 1 example_table)) = Inr (ascii ''1'') \<and>
   snd (lookup_in_store 1 (ascii ''A '') (store_with 1 example_table))
     = store_with 1 example_table"
proof -
  note t = lookup_in_store_pure [of 1 "ascii ''A ''" "store_with 1 example_table"
      "store_with 2 example_table" 2]
  have same: "store_with 1 example_table 1 = store_with 2 example_table 2"
    by (simp add: store_with_def)
  with t have 1: "fst (lookup_in_store 1 (ascii ''A '') (store_with 1 example_table))
      = fst (lookup_in_store 2 (ascii ''A '') (store_with 2 example_table))"
    by blast
  have key: "lower (strip (ascii ''A '')) = ascii ''a''"
    by (simp add: ascii_def eval_strip eval_lower)
  then have "lookup \<lparr>data = store_with 1 example_table 1\<rparr> (ascii ''A '') = Inr (ascii ''1'')"
    by (simp add: lookup_def store_with_def example_table_def ascii_def)
  with t have 2: "fst (lookup_in_store 1 (ascii ''A '') (store_with 1 example_table))
      = Inr (ascii ''1'')"
    by simp
  from t have 3: "snd (lookup_in_store 1 (ascii ''A '') (store_with 1 example_table))
      = store_with 1 example_table"
    by blast
  from same 1 2 3 show ?thesis
    by blast
qed

section \<open>Normal forms\<close>

text \<open>A string is its own \<open>strip\<close> exactly when it neither starts nor ends with whitespace.\<close>

lemma dropWhile_keeps_last:
  "xs \<noteq> [] \<Longrightarrow> \<not> P (last xs) \<Longrightarrow> dropWhile P xs \<noteq> [] \<and> last (dropWhile P xs) = last xs"
  by (induction xs) (auto split: if_splits)

lemma strip_ends:
  "strip s = [] \<or> (\<not> isspace (hd (strip s)) \<and> \<not> isspace (last (strip s)))"
proof (cases "dropWhile isspace s = []")
  case True
  have "strip s = []"
    by (simp only: strip_def True rev.simps dropWhile.simps)
  then show ?thesis
    by simp
next
  case False
  let ?y = "dropWhile isspace s"
  let ?z = "dropWhile isspace (rev ?y)"
  from False have hd_y: "\<not> isspace (hd ?y)"
    by (rule hd_dropWhile)
  from False have "rev ?y \<noteq> []" and "last (rev ?y) = hd ?y"
    by (simp_all add: last_rev)
  with hd_y have z: "?z \<noteq> []" "last ?z = hd ?y"
    using dropWhile_keeps_last [of "rev ?y" isspace] by simp_all
  from z(1) have hd_z: "\<not> isspace (hd ?z)"
    by (rule hd_dropWhile)
  from z have "hd (rev ?z) = hd ?y" and "last (rev ?z) = hd ?z"
    by (simp_all add: hd_rev last_rev)
  with hd_y hd_z show ?thesis
    by (simp add: strip_def)
qed

lemma strip_self:
  "s = [] \<or> (\<not> isspace (hd s) \<and> \<not> isspace (last s)) \<Longrightarrow> strip s = s"
proof (cases "s = []")
  case True
  then show ?thesis
    by (simp add: strip_def)
next
  case False
  assume "s = [] \<or> (\<not> isspace (hd s) \<and> \<not> isspace (last s))"
  with False have e: "\<not> isspace (hd s)" "\<not> isspace (last s)"
    by simp_all
  from False e(1) have 1: "dropWhile isspace s = s"
    by (cases s) simp_all
  from False e(2) have "\<not> isspace (hd (rev s))"
    by (simp add: hd_rev)
  with False have 2: "dropWhile isspace (rev s) = rev s"
    by (cases "rev s") simp_all
  from 1 2 show ?thesis
    by (simp add: strip_def)
qed

lemma strip_self_iff:
  "strip s = s \<longleftrightarrow> s = [] \<or> (\<not> isspace (hd s) \<and> \<not> isspace (last s))"
  using strip_ends [of s] strip_self [of s] by auto

text \<open>The pieces of which \<open>lower\<close> puts its result together.\<close>

lemma tolower_full_962: "tolower_full 962 = [962]"
  by (simp add: tolower_full_def lower_table_def lower_runs_defs)

lemma tolower_full_963: "tolower_full 963 = [963]"
  by (simp add: tolower_full_def lower_table_def lower_runs_defs)

lemma tolower_full_single: "c \<noteq> 304 \<Longrightarrow> \<exists>d. tolower_full c = [d]"
  by (simp add: tolower_full_def split: option.split prod.split)

lemma lower_from_fixed:
  "d \<in> set (lower_from left s) \<Longrightarrow> d \<noteq> 931 \<and> tolower_full d = [d]"
proof (induction s arbitrary: left)
  case Nil
  then show ?case by simp
next
  case (Cons c cs)
  from Cons.prems consider
      (sigma) "c = 931" "d = 962 \<or> d = 963"
    | (piece) "c \<noteq> 931" "d \<in> set (tolower_full c)"
    | (rest) "d \<in> set (lower_from (c # left) cs)"
    by (auto split: if_splits)
  then show ?case
  proof cases
    case sigma
    then show ?thesis
      by (auto simp: tolower_full_962 tolower_full_963)
  next
    case piece
    then show ?thesis
      by (simp add: tolower_full_fixed)
  next
    case rest
    then show ?thesis
      by (rule Cons.IH)
  qed
qed

lemma lower_from_self:
  "\<forall>c\<in>set s. c \<noteq> 931 \<and> tolower_full c = [c] \<Longrightarrow> lower_from left s = s"
  by (induction s arbitrary: left) simp_all

lemma lower_lower: "lower (lower s) = lower s"
  unfolding lower_def by (rule lower_from_self) (blast dest: lower_from_fixed)

lemma lower_from_hd:
  "s \<noteq> [] \<Longrightarrow> \<not> isspace (hd s) \<Longrightarrow> \<not> isspace (hd (lower_from left s))"
proof (cases s)
  case Nil
  assume "s \<noteq> []"
  with Nil show ?thesis by simp
next
  case (Cons c cs)
  assume "\<not> isspace (hd s)"
  with Cons have c: "\<not> isspace c"
    by simp
  show ?thesis
  proof (cases "c = 931")
    case True
    with Cons show ?thesis
      by (simp add: isspace_def)
  next
    case False
    have "hd (tolower_full c) \<in> set (tolower_full c)"
      by (simp add: tolower_full_not_Nil)
    with c have "\<not> isspace (hd (tolower_full c))"
      by (rule tolower_full_fixed(3) [rotated])
    with False Cons show ?thesis
      by (simp add: tolower_full_not_Nil)
  qed
qed

lemma lower_from_last:
  "s \<noteq> [] \<Longrightarrow> \<not> isspace (last s) \<Longrightarrow> \<not> isspace (last (lower_from left s))"
proof (induction s arbitrary: left)
  case Nil
  then show ?case by simp
next
  case (Cons c cs)
  show ?case
  proof (cases "cs = []")
    case True
    with Cons.prems have c: "\<not> isspace c"
      by simp
    show ?thesis
    proof (cases "c = 931")
      case sigma: True
      with True show ?thesis
        by (simp add: isspace_def)
    next
      case False
      have "last (tolower_full c) \<in> set (tolower_full c)"
        by (simp add: tolower_full_not_Nil)
      with c have "\<not> isspace (last (tolower_full c))"
        by (rule tolower_full_fixed(3) [rotated])
      with False True show ?thesis
        by simp
    qed
  next
    case False
    with Cons.prems have "\<not> isspace (last cs)"
      by simp
    with False have "\<not> isspace (last (lower_from (c # left) cs))"
      by (rule Cons.IH)
    moreover from False have "lower_from (c # left) cs \<noteq> []"
      by (simp add: lower_from_Nil_iff)
    ultimately show ?thesis
      by simp
  qed
qed

lemma strip_lower: "strip s = s \<Longrightarrow> strip (lower s) = lower s"
proof (cases "s = []")
  case True
  then show ?thesis
    by (simp add: lower_def strip_def)
next
  case False
  assume "strip s = s"
  with False have "\<not> isspace (hd s)" and "\<not> isspace (last s)"
    by (simp_all add: strip_self_iff)
  with False have "\<not> isspace (hd (lower s))" and "\<not> isspace (last (lower s))"
    by (simp_all add: lower_def lower_from_hd lower_from_last)
  then show ?thesis
    by (simp add: strip_self_iff)
qed

lemma strip_strip: "strip (strip s) = strip s"
  using strip_ends [of s] by (simp add: strip_self_iff)

text \<open>The key that \<open>lookup\<close> computes is its own key.\<close>

lemma key_of_key: "lower (strip (lower (strip s))) = lower (strip s)"
  by (simp add: strip_lower strip_strip lower_lower)

lemma lower_from_eq_self:
  "lower_from left s = s \<Longrightarrow> c \<in> set s \<Longrightarrow> tolower_full c = [c]"
proof (induction s arbitrary: left)
  case Nil
  then show ?case by simp
next
  case (Cons x xs)
  have x: "x \<noteq> 931"
  proof
    assume "x = 931"
    with Cons.prems(1) show False
      by (simp split: if_splits)
  qed
  have y: "x \<noteq> 304"
  proof
    assume "x = 304"
    with Cons.prems(1) show False
      by (simp add: tolower_full_def)
  qed
  then obtain d where d: "tolower_full x = [d]"
    using tolower_full_single by blast
  with x Cons.prems(1) have "d = x" and rest: "lower_from (x # left) xs = xs"
    by simp_all
  with d have here: "tolower_full x = [x]"
    by simp
  from Cons.prems(2) have "c = x \<or> c \<in> set xs"
    by simp
  then show ?case
  proof
    assume "c = x"
    with here show ?thesis by simp
  next
    assume "c \<in> set xs"
    with rest show ?thesis
      by (rule Cons.IH)
  qed
qed

lemma map_of_setitem_other:
  "key \<noteq> k \<Longrightarrow> map_of (dict_setitem d k v) key = map_of d key"
  by (simp add: map_of_dict_setitem)

lemma map_of_filter_other:
  "key \<noteq> k \<Longrightarrow> map_of (filter (\<lambda>item. fst item \<noteq> k) d) key = map_of d key"
  by (induction d) auto

text \<open>
  Claim C9, as stated, at the key U+2102, the double-struck capital C: an uppercase
  letter (\<^verbatim>\<open>str.isupper()\<close> holds for it) that has no lowercase mapping. A key that
  contains it is its own normal form, and \<open>lookup\<close> selects its entry for the input
  U+2102.
\<close>

theorem lookup_uppercase_key_counterexample:
  "is_uppercase 8450 \<and> tolower_full 8450 = [8450] \<and> lower (strip [8450]) = [8450] \<and>
   map_of (data \<lparr>data = dict_display [([8450], ascii ''set C'')]\<rparr>) (lower (strip [8450]))
     = Some (ascii ''set C'') \<and>
   lookup \<lparr>data = dict_display [([8450], ascii ''set C'')]\<rparr> [8450] = Inr (ascii ''set C'')"
proof -
  have c: "is_uppercase 8450"
    by (simp add: is_uppercase_def uppercase_table_def)
  have t: "tolower_full 8450 = [8450]"
    by (simp add: tolower_full_def lower_table_def lower_runs_defs)
  then have k: "lower (strip [8450]) = [8450]"
    by (simp add: lower_def eval_strip)
  then have m: "map_of (data \<lparr>data = dict_display [([8450], ascii ''set C'')]\<rparr>)
      (lower (strip [8450])) = Some (ascii ''set C'')"
    by (simp add: dict_display_def)
  with k have l: "lookup \<lparr>data = dict_display [([8450], ascii ''set C'')]\<rparr> [8450]
      = Inr (ascii ''set C'')"
    by (simp add: lookup_def)
  from c t k m l show ?thesis
    by blast
qed

text \<open>
  Claim C9, amended. \<open>lookup\<close> compares the key \<open>lower (strip s)\<close> with the stored keys by
  equality, and that key is always its own normal form. So a table entry whose key \<open>k\<close>
  is not in normal form, \<open>lower (strip k)\<close> differing from \<open>k\<close>, as it does when \<open>k\<close> starts
  or ends with whitespace or contains a code point that \<open>lower\<close> changes, is never selected:
  for every input the key differs from \<open>k\<close>, and storing a text under \<open>k\<close> or removing the
  entries under \<open>k\<close> changes no result of \<open>lookup\<close>.
\<close>

theorem lookup_ignores_unnormalised_key:
  "((\<exists>c\<in>set k. tolower_full c \<noteq> [c]) \<or> (k \<noteq> [] \<and> (isspace (hd k) \<or> isspace (last k))) \<longrightarrow>
      lower (strip k) \<noteq> k) \<and>
   (lower (strip k) \<noteq> k \<longrightarrow>
      lower (strip s) \<noteq> k \<and>
      lookup \<lparr>data = dict_setitem d k v\<rparr> s = lookup \<lparr>data = d\<rparr> s \<and>
      lookup \<lparr>data = filter (\<lambda>item. fst item \<noteq> k) d\<rparr> s = lookup \<lparr>data = d\<rparr> s)"
proof (intro conjI impI)
  assume a: "(\<exists>c\<in>set k. tolower_full c \<noteq> [c]) \<or> (k \<noteq> [] \<and> (isspace (hd k) \<or> isspace (last k)))"
  show "lower (strip k) \<noteq> k"
  proof
    assume n: "lower (strip k) = k"
    have "strip (lower (strip k)) = lower (strip k)"
      by (simp add: strip_lower strip_strip)
    with n have s: "strip k = k"
      by simp
    with n have "lower_from [] k = k"
      by (simp add: lower_def)
    then have "\<forall>c\<in>set k. tolower_full c = [c]"
      by (blast dest: lower_from_eq_self)
    moreover from s have "k = [] \<or> (\<not> isspace (hd k) \<and> \<not> isspace (last k))"
      by (simp add: strip_self_iff)
    ultimately show False
      using a by blast
  qed
next
  assume n: "lower (strip k) \<noteq> k"
  show "lower (strip s) \<noteq> k"
  proof
    assume "lower (strip s) = k"
    with key_of_key [of s] have "lower (strip k) = k"
      by simp
    with n show False
      by simp
  qed
  then show "lookup \<lparr>data = dict_setitem d k v\<rparr> s = lookup \<lparr>data = d\<rparr> s"
    by (simp add: lookup_def Let_def map_of_setitem_other)
  from \<open>lower (strip s) \<noteq> k\<close>
  show "lookup \<lparr>data = filter (\<lambda>item. fst item \<noteq> k) d\<rparr> s = lookup \<lparr>data = d\<rparr> s"
    by (simp add: lookup_def Let_def map_of_filter_other)
qed

text \<open>
  The witness: the key Paris with its capital letter, stored in the default table, and
  the input Paris; the result is the fallback text as before.
\<close>

theorem lookup_ignores_unnormalised_key_witness:
  "(\<exists>c\<in>set (ascii ''Paris''). tolower_full c \<noteq> [c]) \<and>
   lower (strip (ascii ''Paris'')) \<noteq> ascii ''Paris'' \<and>
   lookup \<lparr>data = dict_setitem (data SIMULATED_DATASET) (ascii ''Paris'') (ascii ''rain'')\<rparr>
      (ascii ''Paris'')
     = lookup \<lparr>data = data SIMULATED_DATASET\<rparr> (ascii ''Paris'') \<and>
   lookup \<lparr>data = data SIMULATED_DATASET\<rparr> (ascii ''Paris'')
     = Inr (ascii ''Paris'' @ fallback_suffix)"
proof -
  note t = lookup_ignores_unnormalised_key [of "ascii ''Paris''" "ascii ''Paris''"
      "data SIMULATED_DATASET" "ascii ''rain''"]
  have "tolower_full 80 \<noteq> [80]"
    by (simp add: tolower_full_upper_ascii)
  then have u: "\<exists>c\<in>set (ascii ''Paris''). tolower_full c \<noteq> [c]"
    by (simp add: ascii_def)
  with t have n: "lower (strip (ascii ''Paris'')) \<noteq> ascii ''Paris''"
    by blast
  with t have 1:
    "lookup \<lparr>data = dict_setitem (data SIMULATED_DATASET) (ascii ''Paris'') (ascii ''rain'')\<rparr>
        (ascii ''Paris'')
      = lookup \<lparr>data = data SIMULATED_DATASET\<rparr> (ascii ''Paris'')"
    by blast
  have key: "lower (strip (ascii ''Paris'')) = ascii ''paris''"
    by (simp add: ascii_def eval_strip eval_lower)
  have absent: "map_of (data SIMULATED_DATASET) (ascii ''paris'') = None"
    by (simp add: ascii_def eval_dataset)
  from key absent
  have 2: "lookup \<lparr>data = data SIMULATED_DATASET\<rparr> (ascii ''Paris'')
      = Inr (ascii ''Paris'' @ fallback_suffix)"
    by (simp add: lookup_def ascii_def)
  from u n 1 2 show ?thesis
    by blast
qed

end
